theory Spec2Isabelle
  imports Complex_Main "HOL-Library.Char_ord" "HOL-Library.List_Lexorder" "HOL-Library.Sublist"
    "HOL-Library.Multiset"
begin

section \<open>Python values shared by both modules\<close>

text \<open>
  Exceptions are values: every function that can raise returns \<open>error + 'a\<close>, with
  \<open>Inl\<close> for the exception. Python strings are \<open>string\<close>; \<open>sorted\<close> on strings is
  \<open>sort\<close> under the lexicographic order on characters.
\<close>

datatype error = AssertionError | KeyError | IndexError | ValueError | AttributeError | TypeError
  | InvalidArgumentError

text \<open>\<open>xs[a:b]\<close> for Python integers \<open>a\<close> and \<open>b\<close>: a negative index counts from the end,
  and both ends are clamped to the list.\<close>

definition py_slice :: "'a list \<Rightarrow> int \<Rightarrow> int \<Rightarrow> 'a list" where
  "py_slice xs a b =
     (let n = int (length xs);
          lo = (if a < 0 then max 0 (a + n) else min a n);
          hi = (if b < 0 then max 0 (b + n) else min b n)
      in take (nat hi - nat lo) (drop (nat lo) xs))"

text \<open>\<open>s.split(sep)[0]\<close> for a non-empty separator: the part of \<open>s\<close> before the first
  occurrence of \<open>sep\<close>, the whole of \<open>s\<close> when there is none.\<close>

fun split_head :: "string \<Rightarrow> string \<Rightarrow> string" where
  "split_head sep [] = []"
| "split_head sep (c # cs) = (if prefix sep (c # cs) then [] else c # split_head sep cs)"

section \<open>src/data/loader\_h5.py\<close>

subsection \<open>HDF5 files\<close>

text \<open>
  An HDF5 file is a finite mapping from keys to datasets; a dataset has a shape and a
  content (\<open>hf.get(k).shape\<close> and \<open>hf.get(k)[()]\<close>). The file is an association list:
  \<open>hf.keys()\<close> are its distinct keys and \<open>hf.get(k)\<close> is \<open>None\<close> for a key that is absent.
  A file name is identified with the content of the file it names, the same at every
  opening.
\<close>

record 'd dataset =
  shape :: "nat list"
  content :: 'd

type_synonym 'd h5file = "(string \<times> 'd dataset) list"

definition h5_keys :: "'d h5file \<Rightarrow> string list" where
  "h5_keys hf = remdups (map fst hf)"

definition h5_get :: "'d h5file \<Rightarrow> string \<Rightarrow> 'd dataset option" where
  "h5_get hf k = map_of hf k"

text \<open>\<open>hf.get(k).shape\<close>: \<open>None\<close> has no attribute \<open>shape\<close>.\<close>

definition h5_shape :: "'d h5file \<Rightarrow> string \<Rightarrow> error + nat list" where
  "h5_shape hf k = (case h5_get hf k of None \<Rightarrow> Inl AttributeError | Some d \<Rightarrow> Inr (shape d))"

text \<open>\<open>hf.get(k)[()]\<close>: \<open>None\<close> is not subscriptable.\<close>

definition h5_read :: "'d h5file \<Rightarrow> string \<Rightarrow> error + 'd" where
  "h5_read hf k = (case h5_get hf k of None \<Rightarrow> Inl TypeError | Some d \<Rightarrow> Inr (content d))"

definition SKIPPED_KEYS :: "string list" where
  "SKIPPED_KEYS = [''num_important'', ''num_labels'']"

definition get_sorted_keys :: "'d h5file \<Rightarrow> string list" where
  "get_sorted_keys hf = sort (h5_keys hf)"

subsection \<open>The dictionary from image keys to label keys\<close>

text \<open>A Python \<open>dict\<close> keeps its keys in insertion order, and the constructor iterates
  over one, so the dictionary is an association list in insertion order.\<close>

type_synonym key_dict = "(string \<times> string list) list"

text \<open>\<open>if k not in d.keys(): d[k] = []\<close> followed by \<open>d[k].append(v)\<close>.\<close>

fun dict_append :: "key_dict \<Rightarrow> string \<Rightarrow> string \<Rightarrow> key_dict" where
  "dict_append [] k v = [(k, [v])]"
| "dict_append ((k', vs) # d) k v =
     (if k' = k then (k', vs @ [v]) # d else (k', vs) # dict_append d k v)"

text \<open>\<open>d[k]\<close>.\<close>

definition dict_get :: "key_dict \<Rightarrow> string \<Rightarrow> error + string list" where
  "dict_get d k = (case map_of d k of None \<Rightarrow> Inl KeyError | Some v \<Rightarrow> Inr v)"

text \<open>The loop \<open>for label_key in label_keys\<close> of \<open>get_image_label_key_dict\<close>.\<close>

fun build_key_dict :: "string list \<Rightarrow> string list \<Rightarrow> key_dict \<Rightarrow> error + key_dict" where
  "build_key_dict image_keys [] kd = Inr kd"
| "build_key_dict image_keys (label_key # label_keys) kd =
     (let image_key = split_head ''_bin'' label_key in
      if image_key \<notin> set SKIPPED_KEYS then
        (if image_key \<in> set image_keys
         then build_key_dict image_keys label_keys (dict_append kd image_key label_key)
         else Inl AssertionError)
      else build_key_dict image_keys label_keys kd)"

definition get_image_label_key_dict :: "'d h5file \<Rightarrow> 'd h5file \<Rightarrow> error + key_dict" where
  "get_image_label_key_dict image_filename label_filename =
     (let image_keys = get_sorted_keys image_filename;
          label_keys = get_sorted_keys label_filename
      in case build_key_dict image_keys label_keys [] of
           Inl e \<Rightarrow> Inl e
         | Inr kd \<Rightarrow> if sort (map fst kd) = image_keys then Inr kd else Inl AssertionError)"

subsection \<open>The common shape of a file\<close>

text \<open>The loop \<open>for k in keys: assert sh == list(hf.get(k).shape)\<close>.\<close>

fun check_shapes :: "'d h5file \<Rightarrow> nat list \<Rightarrow> string list \<Rightarrow> error + unit" where
  "check_shapes hf sh [] = Inr ()"
| "check_shapes hf sh (k # ks) =
     (case h5_shape hf k of
        Inl e \<Rightarrow> Inl e
      | Inr s \<Rightarrow> if sh = s then check_shapes hf sh ks else Inl AssertionError)"

definition get_image_shape :: "'d h5file \<Rightarrow> error + nat list" where
  "get_image_shape hf =
     (let keys = sort (filter (\<lambda>k. k \<notin> set SKIPPED_KEYS) (h5_keys hf)) in
      case keys of
        [] \<Rightarrow> Inl IndexError
      | k0 # _ \<Rightarrow>
          (case h5_shape hf k0 of
             Inl e \<Rightarrow> Inl e
           | Inr sh \<Rightarrow>
               if length sh \<noteq> 3 then Inl AssertionError
               else (case check_shapes hf sh keys of Inl e \<Rightarrow> Inl e | Inr _ \<Rightarrow> Inr sh)))"

subsection \<open>The loader\<close>

record 'd H5DataLoader =
  key_dict :: key_dict
  keys :: "string list"
  moving_image_filename :: "'d h5file"
  fixed_image_filename :: "'d h5file"
  moving_label_filename :: "'d h5file"
  fixed_label_filename :: "'d h5file"
  moving_image_shape :: "nat list"
  fixed_image_shape :: "nat list"

text \<open>The loop \<open>for k in moving_key_dict: assert moving_key_dict[k] == fixed_key_dict[k]\<close>,
  over the keys of the moving dictionary in insertion order.\<close>

fun check_key_dicts :: "key_dict \<Rightarrow> key_dict \<Rightarrow> string list \<Rightarrow> error + unit" where
  "check_key_dicts moving_key_dict fixed_key_dict [] = Inr ()"
| "check_key_dicts moving_key_dict fixed_key_dict (k # ks) =
     (case dict_get moving_key_dict k of
        Inl e \<Rightarrow> Inl e
      | Inr m \<Rightarrow>
          (case dict_get fixed_key_dict k of
             Inl e \<Rightarrow> Inl e
           | Inr f \<Rightarrow>
               if m = f then check_key_dicts moving_key_dict fixed_key_dict ks
               else Inl AssertionError))"

text \<open>Lines 25 to 44 of the constructor: the two dictionaries, their comparison, the four
  shapes and the two shape assertions. The result is the moving dictionary and the two
  image shapes.\<close>

definition load_and_check ::
  "'d h5file \<Rightarrow> 'd h5file \<Rightarrow> 'd h5file \<Rightarrow> 'd h5file \<Rightarrow> error + (key_dict \<times> nat list \<times> nat list)" where
  "load_and_check moving_image fixed_image moving_label fixed_label =
     (case get_image_label_key_dict moving_image moving_label of Inl e \<Rightarrow> Inl e
      | Inr moving_key_dict \<Rightarrow>
     (case get_image_label_key_dict fixed_image fixed_label of Inl e \<Rightarrow> Inl e
      | Inr fixed_key_dict \<Rightarrow>
     (case check_key_dicts moving_key_dict fixed_key_dict (map fst moving_key_dict) of Inl e \<Rightarrow> Inl e
      | Inr _ \<Rightarrow>
     (case get_image_shape moving_image of Inl e \<Rightarrow> Inl e
      | Inr mi_shape \<Rightarrow>
     (case get_image_shape fixed_image of Inl e \<Rightarrow> Inl e
      | Inr fi_shape \<Rightarrow>
     (case get_image_shape moving_label of Inl e \<Rightarrow> Inl e
      | Inr ml_shape \<Rightarrow>
     (case get_image_shape fixed_label of Inl e \<Rightarrow> Inl e
      | Inr fl_shape \<Rightarrow>
         if mi_shape \<noteq> ml_shape then Inl AssertionError
         else if fi_shape \<noteq> fl_shape then Inl AssertionError
         else Inr (moving_key_dict, mi_shape, fi_shape))))))))"

text \<open>
  The constructor. \<open>random.Random(seed).shuffle\<close> belongs to the Python standard library
  and is the parameter \<open>rshuffle\<close>: the list it leaves in place of the one it is given,
  as a function of the seed.
  The constructor of the base class \<open>BasicDataLoader\<close>, which is not among the sources,
  is taken to return without an exception.
\<close>

definition H5DataLoader_init ::
  "('s \<Rightarrow> string list \<Rightarrow> string list) \<Rightarrow>
   'd h5file \<Rightarrow> 'd h5file \<Rightarrow> 'd h5file \<Rightarrow> 'd h5file \<Rightarrow> 's \<Rightarrow> bool \<Rightarrow> int \<Rightarrow> int \<Rightarrow>
   error + 'd H5DataLoader" where
  "H5DataLoader_init rshuffle moving_image fixed_image moving_label fixed_label
       seed shuffle index_start index_end =
     (case load_and_check moving_image fixed_image moving_label fixed_label of
        Inl e \<Rightarrow> Inl e
      | Inr (moving_key_dict, mshape, fshape) \<Rightarrow>
          (let ks = sort (map fst moving_key_dict) in
           if \<not> (index_start \<ge> 0 \<and> index_end \<le> int (length ks)) then Inl AssertionError
           else
             (let ks' = (if shuffle then rshuffle seed ks else ks) in
              Inr \<lparr> key_dict = moving_key_dict,
                    keys = py_slice ks' index_start index_end,
                    moving_image_filename = moving_image,
                    fixed_image_filename = fixed_image,
                    moving_label_filename = moving_label,
                    fixed_label_filename = fixed_label,
                    moving_image_shape = mshape,
                    fixed_image_shape = fshape \<rparr>)))"

subsection \<open>The generator\<close>

text \<open>
  One yielded value: \<open>(moving_image, fixed_image, moving_label), fixed_label, indices\<close>.
  The two entries of \<open>indices\<close> are the image index and the label index, kept as the
  natural numbers that the array holds.
\<close>

type_synonym 'd sample = "('d \<times> 'd \<times> 'd) \<times> 'd \<times> nat list"

text \<open>
  The loop \<open>for image_index, image_key in enumerate(self.keys)\<close>. \<open>random.randrange\<close>
  belongs to the Python standard library and is the parameter \<open>randrange\<close>: from the state
  of the generator of random numbers and the argument \<open>n\<close>, the number drawn and the
  next state; \<open>randrange(0)\<close> raises \<open>ValueError\<close>. The result is the list of the values
  yielded and the exception that ended the iteration, if one did.
\<close>

fun generator_loop ::
  "('g \<Rightarrow> nat \<Rightarrow> nat \<times> 'g) \<Rightarrow> 'd H5DataLoader \<Rightarrow> (nat \<times> string) list \<Rightarrow> 'g \<Rightarrow>
   'd sample list \<times> error option" where
  "generator_loop randrange L [] g = ([], None)"
| "generator_loop randrange L ((image_index, image_key) # rest) g =
     (case dict_get (key_dict L) image_key of Inl e \<Rightarrow> ([], Some e)
      | Inr label_keys \<Rightarrow>
     (let sorted_label_keys = sort label_keys in
      if length sorted_label_keys = 0 then ([], Some ValueError)
      else
     (case randrange g (length sorted_label_keys) of (label_index, g') \<Rightarrow>
      if \<not> label_index < length sorted_label_keys then ([], Some IndexError)
      else
     (let label_key = sorted_label_keys ! label_index in
      case h5_read (moving_image_filename L) image_key of Inl e \<Rightarrow> ([], Some e)
      | Inr moving_image \<Rightarrow>
     (case h5_read (moving_label_filename L) label_key of Inl e \<Rightarrow> ([], Some e)
      | Inr moving_label \<Rightarrow>
     (case h5_read (fixed_image_filename L) image_key of Inl e \<Rightarrow> ([], Some e)
      | Inr fixed_image \<Rightarrow>
     (case h5_read (fixed_label_filename L) label_key of Inl e \<Rightarrow> ([], Some e)
      | Inr fixed_label \<Rightarrow>
     (case generator_loop randrange L rest g' of (ys, r) \<Rightarrow>
        (((moving_image, fixed_image, moving_label), fixed_label, [image_index, label_index]) # ys,
         r)))))))))"

definition get_generator ::
  "('g \<Rightarrow> nat \<Rightarrow> nat \<times> 'g) \<Rightarrow> 'd H5DataLoader \<Rightarrow> 'g \<Rightarrow> 'd sample list \<times> error option" where
  "get_generator randrange L g = generator_loop randrange L (enumerate 0 (keys L)) g"

subsection \<open>Vocabulary of the properties\<close>

text \<open>The image keys that the label keys of a file name: each label key cut at its first
  \<open>_bin\<close>, those cut keys that are bookkeeping keys left out, as the loop of
  \<open>get_image_label_key_dict\<close> does.\<close>

definition label_groups :: "string list \<Rightarrow> string list" where
  "label_groups label_keys =
     filter (\<lambda>k. k \<notin> set SKIPPED_KEYS) (map (split_head ''_bin'') label_keys)"

text \<open>The label keys of a label file name exactly the keys of the image file.\<close>

definition keys_match :: "'d h5file \<Rightarrow> 'd h5file \<Rightarrow> bool" where
  "keys_match image_file label_file \<longleftrightarrow>
     set (label_groups (h5_keys label_file)) = set (h5_keys image_file)"

text \<open>The numbers that successive calls \<open>randrange(n)\<close> draw for the arguments \<open>ns\<close>, from the
  state \<open>g\<close> on.\<close>

fun label_draws :: "('g \<Rightarrow> nat \<Rightarrow> nat \<times> 'g) \<Rightarrow> nat list \<Rightarrow> 'g \<Rightarrow> nat list" where
  "label_draws randrange [] g = []"
| "label_draws randrange (n # ns) g =
     (case randrange g n of (i, g') \<Rightarrow> i # label_draws randrange ns g')"

text \<open>The number of label keys of a case.\<close>

definition num_labels_of :: "'d H5DataLoader \<Rightarrow> string \<Rightarrow> nat" where
  "num_labels_of L k = (case dict_get (key_dict L) k of Inl _ \<Rightarrow> 0 | Inr lks \<Rightarrow> length lks)"

text \<open>The value yielded for a case and a label index, as the loop of \<open>get_generator\<close>
  composes it: the two images read under the case key, the two labels read under the
  label key at that index of the sorted label keys of the case.\<close>

definition drawn_sample :: "'d H5DataLoader \<Rightarrow> nat \<Rightarrow> string \<Rightarrow> nat \<Rightarrow> 'd sample \<Rightarrow> bool" where
  "drawn_sample L image_index image_key label_index y \<longleftrightarrow>
     (\<exists>lks a b c d.
        dict_get (key_dict L) image_key = Inr lks \<and> label_index < length lks \<and>
        h5_read (moving_image_filename L) image_key = Inr a \<and>
        h5_read (fixed_image_filename L) image_key = Inr b \<and>
        h5_read (moving_label_filename L) (sort lks ! label_index) = Inr c \<and>
        h5_read (fixed_label_filename L) (sort lks ! label_index) = Inr d \<and>
        y = ((a, b, c), d, [image_index, label_index]))"

text \<open>The label index that a yielded value carries.\<close>

definition label_index_of :: "'d sample \<Rightarrow> nat" where
  "label_index_of y = (case y of (_, _, indices) \<Rightarrow> indices ! 1)"

text \<open>Every entry of a dictionary has a label key, and all its label keys are among \<open>S\<close>.\<close>

definition vals_in :: "key_dict \<Rightarrow> string set \<Rightarrow> bool" where
  "vals_in kd S \<longleftrightarrow> (\<forall>(k, vs) \<in> set kd. vs \<noteq> [] \<and> set vs \<subseteq> S)"

text \<open>The loop of \<open>get_generator\<close> can serve a case: it has a label key, its images are in
  the two image files and each of its label keys is in the two label files.\<close>

definition case_ok :: "'d H5DataLoader \<Rightarrow> string \<Rightarrow> bool" where
  "case_ok L k \<longleftrightarrow>
     (\<exists>lks. dict_get (key_dict L) k = Inr lks \<and> lks \<noteq> [] \<and>
        (\<exists>a. h5_read (moving_image_filename L) k = Inr a) \<and>
        (\<exists>b. h5_read (fixed_image_filename L) k = Inr b) \<and>
        (\<forall>lk \<in> set lks. (\<exists>c. h5_read (moving_label_filename L) lk = Inr c) \<and>
                        (\<exists>d. h5_read (fixed_label_filename L) lk = Inr d)))"

section \<open>deepreg/loss/image.py\<close>

subsection \<open>Tensors\<close>

text \<open>
  A dense tensor of the tensor framework: its shape and its elements in row-major order.
  The elements are real numbers, so the model computes every formula exactly; rounding,
  infinities and NaN of floating-point numbers are outside it. The operations of the
  framework are modelled at the shapes at which this module calls them: elementwise
  operations on two tensors of one shape, and reductions over every axis but the first.
\<close>

datatype tensor = Tensor (tshape: "nat list") (tdata: "real list")

definition EPS :: real where
  "EPS = 1 / 100000"

text \<open>The batch items of a tensor of shape \<open>(batch, ...)\<close>: the rows of its elements read as
  a matrix of shape \<open>(batch, n)\<close>, with \<open>n\<close> the product of the other dimensions.\<close>

definition item_size :: "nat list \<Rightarrow> nat" where
  "item_size sh = prod_list (tl sh)"

definition batch_size :: "nat list \<Rightarrow> nat" where
  "batch_size sh = (case sh of [] \<Rightarrow> 1 | b # _ \<Rightarrow> b)"

definition batch_items :: "tensor \<Rightarrow> real list list" where
  "batch_items t =
     map (\<lambda>i. take (item_size (tshape t)) (drop (i * item_size (tshape t)) (tdata t)))
       [0..<batch_size (tshape t)]"

definition mean :: "real list \<Rightarrow> real" where
  "mean xs = sum_list xs / real (length xs)"

text \<open>Elementwise operations.\<close>

definition tmap :: "(real \<Rightarrow> real) \<Rightarrow> tensor \<Rightarrow> tensor" where
  "tmap f x = Tensor (tshape x) (map f (tdata x))"

definition tmap2 :: "(real \<Rightarrow> real \<Rightarrow> real) \<Rightarrow> tensor \<Rightarrow> tensor \<Rightarrow> tensor" where
  "tmap2 f x y = Tensor (tshape x) (map2 f (tdata x) (tdata y))"

definition squared_difference :: "tensor \<Rightarrow> tensor \<Rightarrow> tensor" where
  "squared_difference x y = tmap2 (\<lambda>a b. (a - b)\<^sup>2) x y"

definition clip_by_value :: "tensor \<Rightarrow> real \<Rightarrow> real \<Rightarrow> tensor" where
  "clip_by_value t lo hi = tmap (\<lambda>x. min (max x lo) hi) t"

definition tf_negative :: "tensor \<Rightarrow> tensor" where
  "tf_negative t = tmap uminus t"

text \<open>\<open>tf.reduce_mean(t, axis)\<close> and \<open>tf.reduce_sum(t, axis)\<close> with \<open>axis\<close> every axis but the
  first, without and with \<open>keepdims\<close>.\<close>

definition reduce_mean :: "tensor \<Rightarrow> tensor" where
  "reduce_mean t = Tensor (take 1 (tshape t)) (map mean (batch_items t))"

definition reduce_sum :: "tensor \<Rightarrow> tensor" where
  "reduce_sum t = Tensor (take 1 (tshape t)) (map sum_list (batch_items t))"

definition reduce_mean_keepdims :: "tensor \<Rightarrow> tensor" where
  "reduce_mean_keepdims t =
     Tensor (take 1 (tshape t) @ map (\<lambda>_. 1) (tl (tshape t))) (map mean (batch_items t))"

text \<open>\<open>y - mu\<close> for \<open>y\<close> of shape \<open>(batch, ...)\<close> and \<open>mu\<close> of shape \<open>(batch, 1, ..., 1)\<close>: the
  entry of \<open>mu\<close> for a batch item is broadcast over the item.\<close>

definition subtract_keepdims :: "tensor \<Rightarrow> tensor \<Rightarrow> tensor" where
  "subtract_keepdims y mu =
     Tensor (tshape y) (concat (map2 (\<lambda>item m. map (\<lambda>x. x - m) item) (batch_items y) (tdata mu)))"

text \<open>\<open>tf.math.reduce_variance(t, axis)\<close>: the mean of the squared deviations from the
  mean.\<close>

definition reduce_variance :: "tensor \<Rightarrow> tensor" where
  "reduce_variance t =
     reduce_mean (tmap (\<lambda>x. x\<^sup>2) (subtract_keepdims t (reduce_mean_keepdims t)))"

text \<open>\<open>tf.keras.layers.Flatten()\<close>: shape \<open>(batch, n)\<close>; an input without a batch axis is
  refused.\<close>

definition Flatten :: "tensor \<Rightarrow> error + tensor" where
  "Flatten t =
     (case tshape t of
        [] \<Rightarrow> Inl ValueError
      | b # rest \<Rightarrow> Inr (Tensor [b, prod_list rest] (tdata t)))"

definition expand_dims :: "tensor \<Rightarrow> nat \<Rightarrow> error + tensor" where
  "expand_dims t axis =
     (if axis \<le> length (tshape t)
      then Inr (Tensor (take axis (tshape t) @ [1] @ drop axis (tshape t)) (tdata t))
      else Inl InvalidArgumentError)"

definition reshape :: "tensor \<Rightarrow> nat list \<Rightarrow> error + tensor" where
  "reshape t sh =
     (if prod_list sh = prod_list (tshape t) then Inr (Tensor sh (tdata t))
      else Inl InvalidArgumentError)"

text \<open>\<open>tf.linspace(0.0, 1.0, num)\<close>: \<open>num\<close> values evenly spaced from 0 to 1, both ends
  included; the one value 0 for \<open>num = 1\<close> and no value for \<open>num = 0\<close>.\<close>

definition linspace01 :: "nat \<Rightarrow> real list" where
  "linspace01 num =
     (if num = 1 then [0]
      else map (\<lambda>i. real i / real (num - 1)) [0..<num])"

subsection \<open>SumSquaredDifference\<close>

definition SumSquaredDifference_call :: "tensor \<Rightarrow> tensor \<Rightarrow> error + tensor" where
  "SumSquaredDifference_call y_true y_pred =
     (let loss = squared_difference y_true y_pred in
      case Flatten loss of
        Inl e \<Rightarrow> Inl e
      | Inr loss \<Rightarrow> Inr (reduce_mean loss))"

subsection \<open>GlobalNormalizedCrossCorrelation\<close>

definition GlobalNormalizedCrossCorrelation_call :: "tensor \<Rightarrow> tensor \<Rightarrow> error + tensor" where
  "GlobalNormalizedCrossCorrelation_call y_true y_pred =
     (let mu_pred = reduce_mean_keepdims y_pred;
          mu_true = reduce_mean_keepdims y_true;
          var_pred = reduce_variance y_pred;
          var_true = reduce_variance y_true;
          numerator = tmap abs
            (reduce_mean (tmap2 (*) (subtract_keepdims y_pred mu_pred)
                                    (subtract_keepdims y_true mu_true)))
      in Inr (tmap2 (/) (tmap (\<lambda>x. x + EPS) (tmap2 (*) numerator numerator))
                        (tmap (\<lambda>x. x + EPS) (tmap2 (*) var_pred var_true))))"

subsection \<open>GlobalMutualInformation\<close>

text \<open>Lines 87 to 91, and 227 to 231: both inputs get a channel axis when \<open>y_true\<close> has
  four axes, and both must then have five.\<close>

definition adjust_rank :: "tensor \<Rightarrow> tensor \<Rightarrow> error + tensor \<times> tensor" where
  "adjust_rank y_true y_pred =
     (case (if length (tshape y_true) = 4
            then (case expand_dims y_true 4 of Inl e \<Rightarrow> Inl e
                  | Inr yt \<Rightarrow> (case expand_dims y_pred 4 of Inl e \<Rightarrow> Inl e
                  | Inr yp \<Rightarrow> Inr (yt, yp)))
            else Inr (y_true, y_pred)) of
        Inl e \<Rightarrow> Inl e
      | Inr (yt, yp) \<Rightarrow>
          if length (tshape yt) = 5 \<and> length (tshape yp) = 5 then Inr (yt, yp)
          else Inl AssertionError)"

text \<open>A voxel's weights over the bins: \<open>exp(-preterm * (x - bin_centers)^2)\<close> divided by
  its sum over the bins. The rows of \<open>ia\<close> and \<open>ib\<close> before the transposition.\<close>

definition parzen_row :: "real \<Rightarrow> real list \<Rightarrow> real \<Rightarrow> real list" where
  "parzen_row preterm bin_centers x =
     (let w = map (\<lambda>c. exp (- preterm * (x - c)\<^sup>2)) bin_centers
      in map (\<lambda>v. v / sum_list w) w)"

text \<open>\<open>tf.matmul\<close> of two matrices given by their rows.\<close>

definition matmul :: "real list list \<Rightarrow> real list list \<Rightarrow> real list list" where
  "matmul A B = map (\<lambda>row. map (\<lambda>col. sum_list (map2 (*) row col)) (transpose B)) A"

text \<open>Lines 109 to 129 for one batch item: the voxels of the item in \<open>y_true\<close> and in
  \<open>y_pred\<close>, after the reshape to \<open>(batch, nb_voxels, 1)\<close>.\<close>

definition mutual_information_item ::
  "real \<Rightarrow> real list \<Rightarrow> real \<Rightarrow> real list \<Rightarrow> real list \<Rightarrow> real" where
  "mutual_information_item preterm bin_centers nb_voxels y_true y_pred =
     (let ia = transpose (map (parzen_row preterm bin_centers) y_true);
          pa = map (\<lambda>row. [mean row]) ia;
          ib = map (parzen_row preterm bin_centers) y_pred;
          pb = [map mean (transpose ib)];
          papb = matmul pa pb;
          pab = map (map (\<lambda>v. v / nb_voxels)) (matmul ia ib);
          div' = map2 (map2 (\<lambda>a b. (a + EPS) / (b + EPS))) pab papb
      in sum_list (concat (map2 (map2 (\<lambda>a d. a * ln (d + EPS))) pab div')))"

text \<open>Lines 96 to 129, on the clipped inputs of five axes.\<close>

definition mutual_information :: "nat \<Rightarrow> real \<Rightarrow> tensor \<Rightarrow> tensor \<Rightarrow> error + tensor" where
  "mutual_information num_bins sigma_ratio y_true y_pred =
     (let bin_centers = linspace01 num_bins;
          sigma = mean (map2 (-) (tl bin_centers) (butlast bin_centers)) * sigma_ratio;
          preterm = 1 / (2 * sigma\<^sup>2);
          batch = batch_size (tshape y_true);
          n = item_size (tshape y_true)
      in case reshape y_true [batch, n, 1] of Inl e \<Rightarrow> Inl e
      | Inr yt \<Rightarrow>
     (case reshape y_pred [batch, n, 1] of Inl e \<Rightarrow> Inl e
      | Inr yp \<Rightarrow>
     (let nb_voxels = real n * 1
      in Inr (Tensor [batch]
           (map2 (mutual_information_item preterm bin_centers nb_voxels)
              (batch_items yt) (batch_items yp))))))"

definition GlobalMutualInformation_call ::
  "nat \<Rightarrow> real \<Rightarrow> tensor \<Rightarrow> tensor \<Rightarrow> error + tensor" where
  "GlobalMutualInformation_call num_bins sigma_ratio y_true y_pred =
     (case adjust_rank y_true y_pred of Inl e \<Rightarrow> Inl e
      | Inr (yt, yp) \<Rightarrow>
          mutual_information num_bins sigma_ratio
            (clip_by_value yt 0 1) (clip_by_value yp 0 1))"

subsection \<open>LocalNormalizedCrossCorrelation\<close>

text \<open>
  An instance is its attribute dictionary: \<open>self.a = v\<close> stores under the name \<open>a\<close>, and
  reading \<open>self.a\<close> when no assignment to \<open>a\<close> came before raises \<open>AttributeError\<close>
  (of the class and its base class \<open>tf.keras.losses.Loss\<close>, only \<open>kernel_fn_dict\<close> is read
  through \<open>self\<close>; it is the constant below). The three kernel functions come from
  \<open>deepreg.loss.util\<close>; the module stores one of them and never calls it, so they are
  names here.
\<close>

datatype kernel_fn = gaussian_kernel1d | rectangular_kernel1d | triangular_kernel1d

datatype Reduction =
  Reduction_AUTO | Reduction_NONE | Reduction_SUM | Reduction_SUM_OVER_BATCH_SIZE

datatype pyval =
    PyInt int
  | PyStr string
  | PyInts "int list"
  | PyTensor tensor
  | PyKernelFn kernel_fn
  | PyReduction Reduction

type_synonym pyobj = "string \<rightharpoonup> pyval"

definition getattr :: "pyobj \<Rightarrow> string \<Rightarrow> error + pyval" where
  "getattr self a = (case self a of None \<Rightarrow> Inl AttributeError | Some v \<Rightarrow> Inr v)"

definition kernel_fn_dict :: "(string \<times> kernel_fn) list" where
  "kernel_fn_dict =
     [(''gaussian'', gaussian_kernel1d),
      (''rectangular'', rectangular_kernel1d),
      (''triangular'', triangular_kernel1d)]"

text \<open>\<open>tf.keras.losses.Loss.__init__(reduction, name)\<close> of the framework: the instance with
  its two attributes.\<close>

definition Loss_init :: "Reduction \<Rightarrow> string \<Rightarrow> pyobj" where
  "Loss_init reduction name =
     [''reduction'' \<mapsto> PyReduction reduction, ''name'' \<mapsto> PyStr name]"

text \<open>\<open>tf.ones(shape)\<close> for a list of Python values.\<close>

definition tf_ones :: "pyval list \<Rightarrow> error + tensor" where
  "tf_ones sh =
     (if list_all (\<lambda>v. case v of PyInt d \<Rightarrow> 0 \<le> d | _ \<Rightarrow> False) sh
      then Inr (Tensor (map (\<lambda>v. case v of PyInt d \<Rightarrow> nat d | _ \<Rightarrow> 0) sh)
                  (replicate (prod_list (map (\<lambda>v. case v of PyInt d \<Rightarrow> nat d | _ \<Rightarrow> 0) sh)) 1))
      else Inl ValueError)"

text \<open>The constructor, statement by statement. The list of the shape reads
  \<open>self.kernel_size\<close> three times, from left to right.\<close>

definition LocalNormalizedCrossCorrelation_init ::
  "int \<Rightarrow> string \<Rightarrow> Reduction \<Rightarrow> string \<Rightarrow> error + pyobj" where
  "LocalNormalizedCrossCorrelation_init kernel_size kernel_type reduction name =
     (let self = Loss_init reduction name in
      if kernel_type \<notin> set (map fst kernel_fn_dict) then Inl ValueError
      else
     (case map_of kernel_fn_dict kernel_type of None \<Rightarrow> Inl KeyError
      | Some fn \<Rightarrow>
     (let self = self(''kernel_fn'' \<mapsto> PyKernelFn fn);
          self = self(''kernel_type'' \<mapsto> PyStr kernel_type)
      in case getattr self ''kernel_size'' of Inl e \<Rightarrow> Inl e
      | Inr k1 \<Rightarrow>
     (case getattr self ''kernel_size'' of Inl e \<Rightarrow> Inl e
      | Inr k2 \<Rightarrow>
     (case getattr self ''kernel_size'' of Inl e \<Rightarrow> Inl e
      | Inr k3 \<Rightarrow>
     (case tf_ones [k1, k2, k3, PyInt 1, PyInt 1] of Inl e \<Rightarrow> Inl e
      | Inr ones \<Rightarrow>
     (let self = self(''filters'' \<mapsto> PyTensor ones);
          self = self(''strides'' \<mapsto> PyInts [1, 1, 1, 1, 1]);
          self = self(''padding'' \<mapsto> PyStr ''SAME'');
          self = self(''kernel_vol'' \<mapsto> PyInt (kernel_size ^ 3))
      in Inr self)))))))"

text \<open>
  \<open>tf.nn.conv3d\<close> at unit strides and \<open>SAME\<close> padding, for one input and one output
  channel: the entry at a position is the sum of the filter weights times the input
  around the position, the input read as zero outside the volume; the window starts
  \<open>(k - 1) div 2\<close> before the position on each axis. A channel number that does not
  match the filter's is refused; other strides and paddings are not modelled and are
  refused as well.
\<close>

definition vol_at :: "nat \<Rightarrow> nat \<Rightarrow> nat \<Rightarrow> real list \<Rightarrow> int \<Rightarrow> int \<Rightarrow> int \<Rightarrow> real" where
  "vol_at d1 d2 d3 v i j l =
     (if 0 \<le> i \<and> i < int d1 \<and> 0 \<le> j \<and> j < int d2 \<and> 0 \<le> l \<and> l < int d3
      then v ! (nat i * d2 * d3 + nat j * d3 + nat l) else 0)"

definition conv3d_item ::
  "nat \<Rightarrow> nat \<Rightarrow> nat \<Rightarrow> nat \<Rightarrow> nat \<Rightarrow> nat \<Rightarrow> real list \<Rightarrow> real list \<Rightarrow> real list" where
  "conv3d_item d1 d2 d3 k1 k2 k3 w v =
     [sum_list
        [w ! (a * k2 * k3 + b * k3 + c) *
           vol_at d1 d2 d3 v
             (int i + int a - int ((k1 - 1) div 2))
             (int j + int b - int ((k2 - 1) div 2))
             (int l + int c - int ((k3 - 1) div 2)).
         a \<leftarrow> [0..<k1], b \<leftarrow> [0..<k2], c \<leftarrow> [0..<k3]].
      i \<leftarrow> [0..<d1], j \<leftarrow> [0..<d2], l \<leftarrow> [0..<d3]]"

definition conv3d :: "tensor \<Rightarrow> pyval \<Rightarrow> pyval \<Rightarrow> pyval \<Rightarrow> error + tensor" where
  "conv3d input filters strides padding =
     (case (tshape input, filters, strides, padding) of
        ([batch, d1, d2, d3, ch], PyTensor f, PyInts st, PyStr pad) \<Rightarrow>
          (case tshape f of
             [k1, k2, k3, cin, cout] \<Rightarrow>
               if ch = cin \<and> cin = 1 \<and> cout = 1 \<and> st = [1, 1, 1, 1, 1] \<and> pad = ''SAME''
               then Inr (Tensor [batch, d1, d2, d3, 1]
                      (concat (map (conv3d_item d1 d2 d3 k1 k2 k3 (tdata f)) (batch_items input))))
               else Inl InvalidArgumentError
           | _ \<Rightarrow> Inl InvalidArgumentError)
      | _ \<Rightarrow> Inl InvalidArgumentError)"

text \<open>Lines 233 to 276, on the inputs of five axes. In exact arithmetic
  \<open>tf.debugging.check_numerics\<close> returns its argument.\<close>

definition local_ncc :: "pyobj \<Rightarrow> tensor \<Rightarrow> tensor \<Rightarrow> error + tensor" where
  "local_ncc self y_true y_pred =
     (let t2 = tmap2 (*) y_true y_true;
          p2 = tmap2 (*) y_pred y_pred;
          tp = tmap2 (*) y_true y_pred
      in case getattr self ''filters'' of Inl e \<Rightarrow> Inl e
      | Inr filters \<Rightarrow>
     (case getattr self ''strides'' of Inl e \<Rightarrow> Inl e
      | Inr strides \<Rightarrow>
     (case getattr self ''padding'' of Inl e \<Rightarrow> Inl e
      | Inr padding \<Rightarrow>
     (case conv3d y_true filters strides padding of Inl e \<Rightarrow> Inl e
      | Inr t_sum \<Rightarrow>
     (case conv3d y_pred filters strides padding of Inl e \<Rightarrow> Inl e
      | Inr p_sum \<Rightarrow>
     (case conv3d t2 filters strides padding of Inl e \<Rightarrow> Inl e
      | Inr t2_sum \<Rightarrow>
     (case conv3d p2 filters strides padding of Inl e \<Rightarrow> Inl e
      | Inr p2_sum \<Rightarrow>
     (case conv3d tp filters strides padding of Inl e \<Rightarrow> Inl e
      | Inr tp_sum \<Rightarrow>
     (case getattr self ''kernel_vol'' of Inl e \<Rightarrow> Inl e
      | Inr (PyInt kernel_vol) \<Rightarrow>
         (let t_avg = tmap (\<lambda>x. x / real_of_int kernel_vol) t_sum;
              p_avg = tmap (\<lambda>x. x / real_of_int kernel_vol) p_sum;
              cross = tmap2 (-) tp_sum (tmap2 (*) p_avg t_sum);
              t_var = tmap2 (-) t2_sum (tmap2 (*) t_avg t_sum);
              p_var = tmap2 (-) p2_sum (tmap2 (*) p_avg p_sum);
              num = tmap (\<lambda>x. x + EPS) (tmap2 (*) cross cross);
              denom = tmap (\<lambda>x. x + EPS) (tmap2 (*) t_var p_var);
              ncc = tmap2 (/) num denom
          in Inr (reduce_mean ncc))
      | Inr _ \<Rightarrow> Inl TypeError)))))))))"

definition LocalNormalizedCrossCorrelation_call ::
  "pyobj \<Rightarrow> tensor \<Rightarrow> tensor \<Rightarrow> error + tensor" where
  "LocalNormalizedCrossCorrelation_call self y_true y_pred =
     (case adjust_rank y_true y_pred of Inl e \<Rightarrow> Inl e
      | Inr (yt, yp) \<Rightarrow> local_ncc self yt yp)"

subsection \<open>The registered losses\<close>

text \<open>
  Modelled from the spec: \<open>NegativeLossMixin\<close> of \<open>deepreg.loss.util\<close>, which is not among
  the sources. The spec describes it as the sign-flip wrapper, loss = -metric: its
  \<open>call\<close> is the negation of the \<open>call\<close> of the class that follows it among the bases, and
  an exception of that \<open>call\<close> passes through.
\<close>

definition NegativeLossMixin_call ::
  "(tensor \<Rightarrow> tensor \<Rightarrow> error + tensor) \<Rightarrow> tensor \<Rightarrow> tensor \<Rightarrow> error + tensor" where
  "NegativeLossMixin_call super_call y_true y_pred =
     (case super_call y_true y_pred of
        Inl e \<Rightarrow> Inl e
      | Inr metric \<Rightarrow> Inr (tf_negative metric))"

definition GlobalMutualInformationLoss_call ::
  "nat \<Rightarrow> real \<Rightarrow> tensor \<Rightarrow> tensor \<Rightarrow> error + tensor" where
  "GlobalMutualInformationLoss_call num_bins sigma_ratio =
     NegativeLossMixin_call (GlobalMutualInformation_call num_bins sigma_ratio)"

definition LocalNormalizedCrossCorrelationLoss_call ::
  "pyobj \<Rightarrow> tensor \<Rightarrow> tensor \<Rightarrow> error + tensor" where
  "LocalNormalizedCrossCorrelationLoss_call self =
     NegativeLossMixin_call (LocalNormalizedCrossCorrelation_call self)"

definition GlobalNormalizedCrossCorrelationLoss_call :: "tensor \<Rightarrow> tensor \<Rightarrow> error + tensor" where
  "GlobalNormalizedCrossCorrelationLoss_call =
     NegativeLossMixin_call GlobalNormalizedCrossCorrelation_call"

subsection \<open>Vocabulary of the properties\<close>

text \<open>A tensor with a batch axis whose elements fill its shape.\<close>

definition well_shaped :: "tensor \<Rightarrow> bool" where
  "well_shaped t \<longleftrightarrow> tshape t \<noteq> [] \<and> length (tdata t) = prod_list (tshape t)"

text \<open>The variance of the elements of a batch item, and the value that claim C8 gives
  for a batch item: the formula of the claim, on the elements \<open>t\<close> of the item in \<open>y_true\<close>
  and \<open>p\<close> of the item in \<open>y_pred\<close>, with the constant written out.\<close>

definition variance :: "real list \<Rightarrow> real" where
  "variance xs = mean (map (\<lambda>x. (x - mean xs)\<^sup>2) xs)"

definition gncc_formula :: "real list \<Rightarrow> real list \<Rightarrow> real" where
  "gncc_formula t p =
     (\<bar>mean (map2 (\<lambda>a b. (a - mean p) * (b - mean t)) p t)\<bar>\<^sup>2 + 1 / 100000) /
     (variance p * variance t + 1 / 100000)"

section \<open>Properties of the loader\<close>

subsection \<open>Key dictionaries\<close>

lemma label_groups_Nil [simp]: "label_groups [] = []"
  by (simp add: label_groups_def)

lemma label_groups_Cons [simp]:
  "label_groups (lk # lks) =
     (if split_head ''_bin'' lk \<notin> set SKIPPED_KEYS
      then split_head ''_bin'' lk # label_groups lks else label_groups lks)"
  by (simp add: label_groups_def)

lemma sort_eq_iff_set_eq:
  fixes xs ys :: "'a::linorder list"
  assumes "distinct xs" "distinct ys"
  shows "sort xs = sort ys \<longleftrightarrow> set xs = set ys"
proof
  assume "sort xs = sort ys"
  then have "set (sort xs) = set (sort ys)" by simp
  then show "set xs = set ys" by simp
next
  assume "set xs = set ys"
  with assms show "sort xs = sort ys"
    by (intro sorted_distinct_set_unique) simp_all
qed

lemma dict_append_keys: "fst ` set (dict_append d k v) = insert k (fst ` set d)"
  by (induction d k v rule: dict_append.induct) auto

lemma dict_append_distinct:
  "distinct (map fst d) \<Longrightarrow> distinct (map fst (dict_append d k v))"
proof (induction d k v rule: dict_append.induct)
  case (1 k v)
  then show ?case by simp
next
  case (2 k' vs d k v)
  then show ?case using dict_append_keys [of d k v] by (auto simp: image_iff)
qed

lemma dict_append_map_of:
  "map_of (dict_append d k v) =
     (map_of d)(k \<mapsto> (case map_of d k of None \<Rightarrow> [v] | Some vs \<Rightarrow> vs @ [v]))"
  by (induction d k v rule: dict_append.induct) (auto simp: fun_eq_iff)

lemma build_key_dict_fail:
  "\<not> set (label_groups lks) \<subseteq> set iks \<Longrightarrow> build_key_dict iks lks kd = Inl AssertionError"
proof (induction lks arbitrary: kd)
  case Nil
  then show ?case by simp
next
  case (Cons lk lks)
  show ?case
  proof (cases "split_head ''_bin'' lk \<notin> set SKIPPED_KEYS \<and> split_head ''_bin'' lk \<notin> set iks")
    case True
    then show ?thesis by (simp add: Let_def)
  next
    case False
    with Cons.prems have "\<not> set (label_groups lks) \<subseteq> set iks"
      by (simp split: if_splits)
    then have "\<And>kd. build_key_dict iks lks kd = Inl AssertionError"
      by (rule Cons.IH)
    then show ?thesis by (simp add: Let_def)
  qed
qed

lemma build_key_dict_ok:
  "set (label_groups lks) \<subseteq> set iks \<Longrightarrow>
   \<exists>kd'. build_key_dict iks lks kd = Inr kd' \<and>
         fst ` set kd' = fst ` set kd \<union> set (label_groups lks) \<and>
         (distinct (map fst kd) \<longrightarrow> distinct (map fst kd'))"
proof (induction lks arbitrary: kd)
  case Nil
  then show ?case by simp
next
  case (Cons lk lks)
  then have sub: "set (label_groups lks) \<subseteq> set iks"
    by (simp split: if_splits)
  show ?case
  proof (cases "split_head ''_bin'' lk \<in> set SKIPPED_KEYS")
    case True
    with Cons.IH [OF sub, of kd] show ?thesis
      by (simp add: Let_def)
  next
    case False
    define g where "g = split_head ''_bin'' lk"
    from False Cons.prems have mem: "g \<in> set iks" and ns: "g \<notin> set SKIPPED_KEYS"
      by (simp_all add: g_def)
    from Cons.IH [OF sub, of "dict_append kd g lk"]
    obtain kd' where kd': "build_key_dict iks lks (dict_append kd g lk) = Inr kd'"
      "fst ` set kd' = fst ` set (dict_append kd g lk) \<union> set (label_groups lks)"
      "distinct (map fst (dict_append kd g lk)) \<longrightarrow> distinct (map fst kd')"
      by blast
    have "build_key_dict iks (lk # lks) kd = Inr kd'"
      using ns mem kd'(1) by (simp add: Let_def g_def)
    moreover have "fst ` set kd' = fst ` set kd \<union> set (label_groups (lk # lks))"
      using kd'(2) ns by (simp add: dict_append_keys g_def)
    moreover have "distinct (map fst kd) \<longrightarrow> distinct (map fst kd')"
      using kd'(3) dict_append_distinct by blast
    ultimately show ?thesis by blast
  qed
qed

lemma label_groups_sort [simp]: "set (label_groups (sort xs)) = set (label_groups xs)"
  by (simp add: label_groups_def del: label_groups_Cons)

lemma get_image_label_key_dict_fail:
  assumes "\<not> keys_match img lab"
  shows "get_image_label_key_dict img lab = Inl AssertionError"
proof (cases "set (label_groups (h5_keys lab)) \<subseteq> set (h5_keys img)")
  case False
  then have "build_key_dict (get_sorted_keys img) (get_sorted_keys lab) [] = Inl AssertionError"
    by (intro build_key_dict_fail) (simp add: get_sorted_keys_def)
  then show ?thesis by (simp add: get_image_label_key_dict_def)
next
  case True
  then have "set (label_groups (get_sorted_keys lab)) \<subseteq> set (get_sorted_keys img)"
    by (simp add: get_sorted_keys_def)
  from build_key_dict_ok [OF this, of "[]"]
  obtain kd where kd: "build_key_dict (get_sorted_keys img) (get_sorted_keys lab) [] = Inr kd"
    "fst ` set kd = set (label_groups (get_sorted_keys lab))" "distinct (map fst kd)"
    by auto
  have "set (map fst kd) \<noteq> set (h5_keys img)"
    using kd(2) assms by (simp add: keys_match_def get_sorted_keys_def)
  then have "sort (map fst kd) \<noteq> get_sorted_keys img"
    unfolding get_sorted_keys_def using kd(3)
    by (simp add: sort_eq_iff_set_eq h5_keys_def)
  with kd(1) show ?thesis by (simp add: get_image_label_key_dict_def)
qed

lemma get_image_label_key_dict_ok:
  assumes "get_image_label_key_dict img lab = Inr kd"
  shows "keys_match img lab"
  using assms get_image_label_key_dict_fail [of img lab] by auto

lemma get_image_label_key_dict_keys:
  assumes "get_image_label_key_dict img lab = Inr kd"
  shows "set (map fst kd) = set (h5_keys img)" "distinct (map fst kd)"
proof -
  from assms obtain kd0 where b: "build_key_dict (get_sorted_keys img) (get_sorted_keys lab) [] = Inr kd0"
    and s: "sort (map fst kd0) = get_sorted_keys img" and e: "kd = kd0"
    by (auto simp: get_image_label_key_dict_def Let_def split: sum.splits if_splits)
  have "set (sort (map fst kd0)) = set (get_sorted_keys img)" using s by simp
  then show "set (map fst kd) = set (h5_keys img)" using e by (simp add: get_sorted_keys_def)
  have sub: "set (label_groups (get_sorted_keys lab)) \<subseteq> set (get_sorted_keys img)"
    using b build_key_dict_fail [of "get_sorted_keys lab" "get_sorted_keys img" "[]"] by auto
  from build_key_dict_ok [OF sub, of "[]"] b show "distinct (map fst kd)" using e by auto
qed


lemma get_image_label_key_dict_total:
  "keys_match img lab \<Longrightarrow> \<exists>kd. get_image_label_key_dict img lab = Inr kd"
proof -
  assume m: "keys_match img lab"
  then have "set (label_groups (get_sorted_keys lab)) \<subseteq> set (get_sorted_keys img)"
    by (simp add: keys_match_def get_sorted_keys_def)
  from build_key_dict_ok [OF this, of "[]"]
  obtain kd where kd: "build_key_dict (get_sorted_keys img) (get_sorted_keys lab) [] = Inr kd"
    "fst ` set kd = set (label_groups (get_sorted_keys lab))" "distinct (map fst kd)"
    by auto
  have "set (map fst kd) = set (h5_keys img)"
    using kd(2) m by (simp add: keys_match_def get_sorted_keys_def)
  then have "sort (map fst kd) = get_sorted_keys img"
    unfolding get_sorted_keys_def using kd(3)
    by (simp add: sort_eq_iff_set_eq h5_keys_def)
  with kd(1) show ?thesis by (simp add: get_image_label_key_dict_def)
qed

lemma load_and_check_dicts:
  assumes "load_and_check mi fi ml fl = Inr (kd, ms, fs)"
  shows "get_image_label_key_dict mi ml = Inr kd"
    and "\<exists>fkd. get_image_label_key_dict fi fl = Inr fkd \<and>
           check_key_dicts kd fkd (map fst kd) = Inr ()"
    and "get_image_shape mi = Inr ms" and "get_image_shape fi = Inr fs"
    and "get_image_shape ml = Inr ms" and "get_image_shape fl = Inr fs"
  using assms unfolding load_and_check_def
  by (auto split: sum.splits if_splits)

lemma init_load_and_check:
  assumes "H5DataLoader_init rs mi fi ml fl seed sh a b = Inr L"
  shows "load_and_check mi fi ml fl = Inr (key_dict L, moving_image_shape L, fixed_image_shape L)"
    and "0 \<le> a" and "b \<le> int (length (key_dict L))"
    and "keys L = py_slice (if sh then rs seed (sort (map fst (key_dict L))) else sort (map fst (key_dict L))) a b"
    and "moving_image_filename L = mi" and "fixed_image_filename L = fi"
    and "moving_label_filename L = ml" and "fixed_label_filename L = fl"
  using assms unfolding H5DataLoader_init_def
  by (auto simp: Let_def split: sum.splits if_splits prod.splits)

lemma init_fails_with:
  "load_and_check mi fi ml fl = Inl e \<Longrightarrow> H5DataLoader_init rs mi fi ml fl seed sh a b = Inl e"
  by (simp add: H5DataLoader_init_def)

lemma load_and_check_fails_moving:
  "get_image_label_key_dict mi ml = Inl e \<Longrightarrow> load_and_check mi fi ml fl = Inl e"
  by (simp add: load_and_check_def)

lemma load_and_check_fails_fixed:
  "get_image_label_key_dict mi ml = Inr kd \<Longrightarrow> get_image_label_key_dict fi fl = Inl e \<Longrightarrow>
   load_and_check mi fi ml fl = Inl e"
  by (simp add: load_and_check_def)

text \<open>
  Claim C2, amended. Construction succeeds only when, for both the moving and the fixed
  pair of files, the label keys whose part before \<open>_bin\<close> is not a bookkeeping key name,
  by that part, exactly the keys of the image file (so each of them names an image key
  and every case has a label); when this fails for either pair, construction raises an
  assertion error.
\<close>

theorem init_requires_matching_keys:
  "(H5DataLoader_init rs mi fi ml fl seed sh a b = Inr L \<longrightarrow>
      keys_match mi ml \<and> keys_match fi fl) \<and>
   (\<not> (keys_match mi ml \<and> keys_match fi fl) \<longrightarrow>
      H5DataLoader_init rs mi fi ml fl seed sh a b = Inl AssertionError)"
proof -
  have fail: "H5DataLoader_init rs mi fi ml fl seed sh a b = Inl AssertionError"
    if "\<not> (keys_match mi ml \<and> keys_match fi fl)"
  proof (cases "keys_match mi ml")
    case False
    then show ?thesis
      by (intro init_fails_with load_and_check_fails_moving get_image_label_key_dict_fail)
  next
    case True
    then obtain kd where "get_image_label_key_dict mi ml = Inr kd"
      using get_image_label_key_dict_total by blast
    moreover from True that have "get_image_label_key_dict fi fl = Inl AssertionError"
      by (intro get_image_label_key_dict_fail) simp
    ultimately show ?thesis
      by (intro init_fails_with load_and_check_fails_fixed)
  qed
  show ?thesis
  proof (cases "keys_match mi ml \<and> keys_match fi fl")
    case True
    then show ?thesis by simp
  next
    case False
    with fail show ?thesis by simp
  qed
qed


text \<open>The theorem at a loader that is built and at one whose moving label file names a
  case that the image file does not have.\<close>

theorem init_requires_matching_keys_witness:
  "keys_match [(''case0'', \<lparr>shape = [2, 3, 4], content = ()\<rparr>)]
              [(''case0_bin0'', \<lparr>shape = [2, 3, 4], content = ()\<rparr>),
               (''num_labels'', \<lparr>shape = [], content = ()\<rparr>)] \<and>
   H5DataLoader_init rotate
     [(''case0'', \<lparr>shape = [2, 3, 4], content = ()\<rparr>)]
     [(''case0'', \<lparr>shape = [2, 3, 4], content = ()\<rparr>)]
     [(''case1_bin0'', \<lparr>shape = [2, 3, 4], content = ()\<rparr>)]
     [(''case0_bin0'', \<lparr>shape = [2, 3, 4], content = ()\<rparr>)]
     (0::nat) True 0 1 = Inl AssertionError"
proof -
  let ?img = "[(''case0'', \<lparr>shape = [2, 3, 4], content = ()\<rparr>)]"
  let ?lab = "[(''case0_bin0'', \<lparr>shape = [2, 3, 4], content = ()\<rparr>),
               (''num_labels'', \<lparr>shape = [], content = ()\<rparr>)]"
  let ?bad = "[(''case1_bin0'', \<lparr>shape = [2, 3, 4], content = ()\<rparr>)]"
  let ?lab1 = "[(''case0_bin0'', \<lparr>shape = [2, 3, 4], content = ()\<rparr>)]"
  have ok: "H5DataLoader_init rotate ?img ?img ?lab ?lab (0::nat) True 0 1 =
      Inr \<lparr>key_dict = [(''case0'', [''case0_bin0''])], keys = [''case0''],
           moving_image_filename = ?img, fixed_image_filename = ?img,
           moving_label_filename = ?lab, fixed_label_filename = ?lab,
           moving_image_shape = [2, 3, 4], fixed_image_shape = [2, 3, 4]\<rparr>"
    by (simp add: H5DataLoader_init_def load_and_check_def get_image_label_key_dict_def
        get_sorted_keys_def h5_keys_def SKIPPED_KEYS_def get_image_shape_def h5_shape_def
        h5_get_def dict_get_def py_slice_def)
  have bad: "\<not> (keys_match ?img ?bad \<and> keys_match ?img ?lab1)"
    by (simp add: keys_match_def label_groups_def h5_keys_def SKIPPED_KEYS_def)
  from init_requires_matching_keys [where rs = rotate and mi = ?img and fi = ?img and ml = ?lab
      and fl = ?lab and seed = 0 and sh = True and a = 0 and b = 1] ok
  have "keys_match ?img ?lab" by blast
  moreover from init_requires_matching_keys [where rs = rotate and mi = ?img and fi = ?img and ml = ?bad
      and fl = ?lab1 and seed = 0 and sh = True and a = 0 and b = 1] bad
  have "H5DataLoader_init rotate ?img ?img ?bad ?lab1 (0::nat) True 0 1 = Inl AssertionError"
    by blast
  ultimately show ?thesis by blast
qed

text \<open>Claim C2 as stated fails: a label key \<open>num_labels_bin0\<close> is not one of the two
  bookkeeping keys, its part before \<open>_bin\<close> is no image key, and the loader is built.\<close>

theorem init_matching_keys_counterexample:
  "H5DataLoader_init rotate
     [(''case0'', \<lparr>shape = [2, 3, 4], content = ()\<rparr>)]
     [(''case0'', \<lparr>shape = [2, 3, 4], content = ()\<rparr>)]
     [(''case0_bin0'', \<lparr>shape = [2, 3, 4], content = ()\<rparr>),
      (''num_labels_bin0'', \<lparr>shape = [2, 3, 4], content = ()\<rparr>)]
     [(''case0_bin0'', \<lparr>shape = [2, 3, 4], content = ()\<rparr>),
      (''num_labels_bin0'', \<lparr>shape = [2, 3, 4], content = ()\<rparr>)]
     (0::nat) False 0 1
   = Inr \<lparr>key_dict = [(''case0'', [''case0_bin0''])], keys = [''case0''],
          moving_image_filename = [(''case0'', \<lparr>shape = [2, 3, 4], content = ()\<rparr>)],
          fixed_image_filename = [(''case0'', \<lparr>shape = [2, 3, 4], content = ()\<rparr>)],
          moving_label_filename =
            [(''case0_bin0'', \<lparr>shape = [2, 3, 4], content = ()\<rparr>),
             (''num_labels_bin0'', \<lparr>shape = [2, 3, 4], content = ()\<rparr>)],
          fixed_label_filename =
            [(''case0_bin0'', \<lparr>shape = [2, 3, 4], content = ()\<rparr>),
             (''num_labels_bin0'', \<lparr>shape = [2, 3, 4], content = ()\<rparr>)],
          moving_image_shape = [2, 3, 4], fixed_image_shape = [2, 3, 4]\<rparr>
   \<and> ''num_labels_bin0'' \<in> set (h5_keys
         [(''case0_bin0'', \<lparr>shape = [2, 3, 4], content = ()\<rparr>),
          (''num_labels_bin0'', \<lparr>shape = [2, 3, 4], content = ()\<rparr>)])
   \<and> ''num_labels_bin0'' \<notin> set SKIPPED_KEYS
   \<and> split_head ''_bin'' ''num_labels_bin0'' \<notin>
         set (h5_keys [(''case0'', \<lparr>shape = [2, 3, 4], content = ()\<rparr>)])"
  by (simp add: H5DataLoader_init_def load_and_check_def get_image_label_key_dict_def
        get_sorted_keys_def h5_keys_def SKIPPED_KEYS_def get_image_shape_def h5_shape_def
        h5_get_def dict_get_def py_slice_def)

subsection \<open>Shapes\<close>

lemma check_shapes_ok:
  "check_shapes hf sh ks = Inr u \<Longrightarrow> k \<in> set ks \<Longrightarrow> h5_shape hf k = Inr sh"
  by (induction ks) (auto split: sum.splits if_splits)

lemma get_image_shape_ok:
  assumes "get_image_shape hf = Inr sh"
  shows "length sh = 3"
    and "k \<in> set (h5_keys hf) \<Longrightarrow> k \<notin> set SKIPPED_KEYS \<Longrightarrow> h5_shape hf k = Inr sh"
proof -
  let ?ks = "sort (filter (\<lambda>k. k \<notin> set SKIPPED_KEYS) (h5_keys hf))"
  from assms have "length sh = 3 \<and> check_shapes hf sh ?ks = Inr ()"
    unfolding get_image_shape_def Let_def
    by (auto split: list.splits sum.splits if_splits)
  then show "length sh = 3" and "k \<in> set (h5_keys hf) \<Longrightarrow> k \<notin> set SKIPPED_KEYS \<Longrightarrow> h5_shape hf k = Inr sh"
    using check_shapes_ok [of hf sh ?ks "()" k] by auto
qed

lemma set_label_groups: "k \<in> set (label_groups lks) \<Longrightarrow> k \<notin> set SKIPPED_KEYS"
  by (simp add: label_groups_def del: label_groups_Cons)

lemma keys_match_not_skipped:
  "keys_match img lab \<Longrightarrow> k \<in> set (h5_keys img) \<Longrightarrow> k \<notin> set SKIPPED_KEYS"
  using set_label_groups by (auto simp: keys_match_def)

text \<open>
  Claim C4, amended. After every successful construction, every dataset of the moving
  image file and every dataset of the moving label file that is not a bookkeeping key
  has the 3-dimensional shape \<open>moving_image_shape\<close>, and every dataset of the fixed image
  file and every dataset of the fixed label file that is not a bookkeeping key has the
  3-dimensional shape \<open>fixed_image_shape\<close>. The two shapes are not compared.
\<close>

theorem init_shapes_per_pair:
  assumes "H5DataLoader_init rs mi fi ml fl seed sh a b = Inr L"
  shows "length (moving_image_shape L) = 3 \<and> length (fixed_image_shape L) = 3 \<and>
         (\<forall>k \<in> set (h5_keys mi). h5_shape mi k = Inr (moving_image_shape L)) \<and>
         (\<forall>k \<in> set (h5_keys ml). k \<notin> set SKIPPED_KEYS \<longrightarrow>
              h5_shape ml k = Inr (moving_image_shape L)) \<and>
         (\<forall>k \<in> set (h5_keys fi). h5_shape fi k = Inr (fixed_image_shape L)) \<and>
         (\<forall>k \<in> set (h5_keys fl). k \<notin> set SKIPPED_KEYS \<longrightarrow>
              h5_shape fl k = Inr (fixed_image_shape L))"
proof -
  note lc = init_load_and_check(1) [OF assms]
  note sh = load_and_check_dicts(3-6) [OF lc]
  from load_and_check_dicts(1,2) [OF lc]
  have km: "keys_match mi ml" "keys_match fi fl"
    using get_image_label_key_dict_ok by blast+
  show ?thesis
    using get_image_shape_ok [OF sh(1)] get_image_shape_ok [OF sh(2)]
      get_image_shape_ok [OF sh(3)] get_image_shape_ok [OF sh(4)]
      keys_match_not_skipped [OF km(1)] keys_match_not_skipped [OF km(2)]
    by blast
qed

subsection \<open>The key list\<close>

lemma get_image_label_key_dict_sorted:
  assumes "get_image_label_key_dict img lab = Inr kd"
  shows "sort (map fst kd) = sort (h5_keys img)"
  using assms
  by (auto simp: get_image_label_key_dict_def get_sorted_keys_def Let_def
      split: sum.splits if_splits)

lemma init_case_keys:
  assumes "H5DataLoader_init rs mi fi ml fl seed sh a b = Inr L"
  shows "sort (map fst (key_dict L)) = sort (h5_keys mi)"
    and "length (key_dict L) = length (h5_keys mi)"
proof -
  note lc = init_load_and_check(1) [OF assms]
  show s: "sort (map fst (key_dict L)) = sort (h5_keys mi)"
    by (rule get_image_label_key_dict_sorted [OF load_and_check_dicts(1) [OF lc]])
  have "length (sort (map fst (key_dict L))) = length (sort (h5_keys mi))"
    by (simp only: s)
  then show "length (key_dict L) = length (h5_keys mi)" by simp
qed

lemma load_and_check_case_keys:
  assumes "load_and_check mi fi ml fl = Inr (kd, ms, fs)"
  shows "length kd = length (h5_keys mi)"
proof -
  have "length (sort (map fst kd)) = length (sort (h5_keys mi))"
    by (simp only: get_image_label_key_dict_sorted [OF load_and_check_dicts(1) [OF assms]])
  then show ?thesis by simp
qed

text \<open>
  Claim C3, amended. With \<open>shuffle=True\<close> the key list of a constructed loader is the
  slice \<open>[index_start:index_end]\<close> of the sorted case keys permuted by the shuffle of the
  seed, so it is a function of the case keys, the seed and the two indices alone.
  Construction succeeds only when \<open>index_start >= 0\<close> and \<open>index_end\<close> is at most the
  number of cases; when the checks of keys and shapes that come first pass and this
  condition fails, construction raises an assertion error.
\<close>

theorem init_keys_shuffled_slice:
  "(H5DataLoader_init rs mi fi ml fl seed True a b = Inr L \<longrightarrow>
      keys L = py_slice (rs seed (sort (h5_keys mi))) a b) \<and>
   (H5DataLoader_init rs mi fi ml fl seed sh a b = Inr L \<longrightarrow>
      0 \<le> a \<and> b \<le> int (length (h5_keys mi))) \<and>
   (load_and_check mi fi ml fl = Inr c \<and> \<not> (0 \<le> a \<and> b \<le> int (length (h5_keys mi))) \<longrightarrow>
      H5DataLoader_init rs mi fi ml fl seed sh a b = Inl AssertionError)"
proof (intro conjI impI)
  assume i: "H5DataLoader_init rs mi fi ml fl seed True a b = Inr L"
  show "keys L = py_slice (rs seed (sort (h5_keys mi))) a b"
    using init_load_and_check(4) [OF i] init_case_keys(1) [OF i] by simp
next
  assume i: "H5DataLoader_init rs mi fi ml fl seed sh a b = Inr L"
  show "0 \<le> a" by (rule init_load_and_check(2) [OF i])
  show "b \<le> int (length (h5_keys mi))"
    using init_load_and_check(3) [OF i] init_case_keys(2) [OF i] by simp
next
  assume h: "load_and_check mi fi ml fl = Inr c \<and> \<not> (0 \<le> a \<and> b \<le> int (length (h5_keys mi)))"
  obtain kd ms fs where c: "c = (kd, ms, fs)" by (cases c)
  with h have lc: "load_and_check mi fi ml fl = Inr (kd, ms, fs)" by simp
  have "length kd = length (h5_keys mi)" by (rule load_and_check_case_keys [OF lc])
  moreover from h have "\<not> (0 \<le> a \<and> b \<le> int (length (h5_keys mi)))" by simp
  ultimately show "H5DataLoader_init rs mi fi ml fl seed sh a b = Inl AssertionError"
    using lc by (simp add: H5DataLoader_init_def Let_def)
qed


lemmas loader_eval =
  H5DataLoader_init_def load_and_check_def get_image_label_key_dict_def
  get_sorted_keys_def h5_keys_def SKIPPED_KEYS_def get_image_shape_def h5_shape_def
  h5_get_def dict_get_def py_slice_def

text \<open>
  The theorem at a loader whose moving files have shape (2, 3, 4) and whose fixed files
  have shape (5, 6, 7).
\<close>

theorem init_shapes_per_pair_witness:
  "h5_shape [(''case0'', \<lparr>shape = [2, 3, 4], content = ()\<rparr>)] ''case0'' = Inr [2, 3, 4] \<and>
   h5_shape [(''case0_bin0'', \<lparr>shape = [2, 3, 4], content = ()\<rparr>), (''num_labels'', \<lparr>shape = [], content = ()\<rparr>)] ''case0_bin0'' = Inr [2, 3, 4] \<and>
   h5_shape [(''case0'', \<lparr>shape = [5, 6, 7], content = ()\<rparr>)] ''case0'' = Inr [5, 6, 7] \<and>
   h5_shape [(''case0_bin0'', \<lparr>shape = [5, 6, 7], content = ()\<rparr>)] ''case0_bin0'' = Inr [5, 6, 7]"
proof -
  let ?mi = "[(''case0'', \<lparr>shape = [2, 3, 4], content = ()\<rparr>)]"
  let ?ml = "[(''case0_bin0'', \<lparr>shape = [2, 3, 4], content = ()\<rparr>), (''num_labels'', \<lparr>shape = [], content = ()\<rparr>)]"
  let ?fi = "[(''case0'', \<lparr>shape = [5, 6, 7], content = ()\<rparr>)]"
  let ?fl = "[(''case0_bin0'', \<lparr>shape = [5, 6, 7], content = ()\<rparr>)]"
  let ?L = "\<lparr>key_dict = [(''case0'', [''case0_bin0''])], keys = [''case0''],
             moving_image_filename = ?mi, fixed_image_filename = ?fi,
             moving_label_filename = ?ml, fixed_label_filename = ?fl,
             moving_image_shape = [2, 3, 4], fixed_image_shape = [5, 6, 7]\<rparr>"
  have ok: "H5DataLoader_init rotate ?mi ?fi ?ml ?fl (0::nat) False 0 1 = Inr ?L"
    by (simp add: loader_eval)
  have "''case0'' \<in> set (h5_keys ?mi)" "''case0_bin0'' \<in> set (h5_keys ?ml)"
    "''case0'' \<in> set (h5_keys ?fi)" "''case0_bin0'' \<in> set (h5_keys ?fl)"
    "''case0_bin0'' \<notin> set SKIPPED_KEYS"
    by (simp_all add: h5_keys_def SKIPPED_KEYS_def)
  with init_shapes_per_pair [OF ok] show ?thesis by simp
qed

text \<open>
  Claim C4 as stated fails: the constructor compares each image shape with the shape of
  its own label file only, and builds a loader whose moving and fixed shapes differ.
\<close>

theorem init_common_shape_counterexample:
  "H5DataLoader_init rotate [(''case0'', \<lparr>shape = [2, 3, 4], content = ()\<rparr>)] [(''case0'', \<lparr>shape = [5, 6, 7], content = ()\<rparr>)]
     [(''case0_bin0'', \<lparr>shape = [2, 3, 4], content = ()\<rparr>)] [(''case0_bin0'', \<lparr>shape = [5, 6, 7], content = ()\<rparr>)] (0::nat) False 0 1
   = Inr \<lparr>key_dict = [(''case0'', [''case0_bin0''])], keys = [''case0''],
          moving_image_filename = [(''case0'', \<lparr>shape = [2, 3, 4], content = ()\<rparr>)],
          fixed_image_filename = [(''case0'', \<lparr>shape = [5, 6, 7], content = ()\<rparr>)],
          moving_label_filename = [(''case0_bin0'', \<lparr>shape = [2, 3, 4], content = ()\<rparr>)],
          fixed_label_filename = [(''case0_bin0'', \<lparr>shape = [5, 6, 7], content = ()\<rparr>)],
          moving_image_shape = [2, 3, 4], fixed_image_shape = [5, 6, 7]\<rparr>
   \<and> h5_shape [(''case0'', \<lparr>shape = [2, 3, 4], content = ()\<rparr>)] ''case0'' \<noteq> h5_shape [(''case0'', \<lparr>shape = [5, 6, 7], content = ()\<rparr>)] ''case0''"
  by (simp add: loader_eval)

text \<open>
  The theorem at two cases and seed 1, with the rotation by the seed standing for the
  shuffle: the slice \<open>[0:1]\<close> is built, the slice \<open>[0:3]\<close> is refused.
\<close>

theorem init_keys_shuffled_slice_witness:
  "py_slice (rotate 1 (sort (h5_keys [(''case0'', \<lparr>shape = [2, 3, 4], content = ()\<rparr>), (''case1'', \<lparr>shape = [2, 3, 4], content = ()\<rparr>)]))) 0 1 = [''case1''] \<and>
   (0::int) \<le> 0 \<and> 1 \<le> int (length (h5_keys [(''case0'', \<lparr>shape = [2, 3, 4], content = ()\<rparr>), (''case1'', \<lparr>shape = [2, 3, 4], content = ()\<rparr>)])) \<and>
   H5DataLoader_init rotate [(''case0'', \<lparr>shape = [2, 3, 4], content = ()\<rparr>), (''case1'', \<lparr>shape = [2, 3, 4], content = ()\<rparr>)]
     [(''case0'', \<lparr>shape = [2, 3, 4], content = ()\<rparr>), (''case1'', \<lparr>shape = [2, 3, 4], content = ()\<rparr>)]
     [(''case0_bin0'', \<lparr>shape = [2, 3, 4], content = ()\<rparr>), (''case1_bin0'', \<lparr>shape = [2, 3, 4], content = ()\<rparr>)]
     [(''case0_bin0'', \<lparr>shape = [2, 3, 4], content = ()\<rparr>), (''case1_bin0'', \<lparr>shape = [2, 3, 4], content = ()\<rparr>)] (1::nat) True 0 3 = Inl AssertionError"
proof -
  let ?img = "[(''case0'', \<lparr>shape = [2, 3, 4], content = ()\<rparr>), (''case1'', \<lparr>shape = [2, 3, 4], content = ()\<rparr>)]"
  let ?lab = "[(''case0_bin0'', \<lparr>shape = [2, 3, 4], content = ()\<rparr>), (''case1_bin0'', \<lparr>shape = [2, 3, 4], content = ()\<rparr>)]"
  let ?kd = "[(''case0'', [''case0_bin0'']), (''case1'', [''case1_bin0''])]"
  let ?L = "\<lparr>key_dict = ?kd, keys = [''case1''],
             moving_image_filename = ?img, fixed_image_filename = ?img,
             moving_label_filename = ?lab, fixed_label_filename = ?lab,
             moving_image_shape = [2, 3, 4], fixed_image_shape = [2, 3, 4]\<rparr>"
  have ok: "H5DataLoader_init rotate ?img ?img ?lab ?lab (1::nat) True 0 1 = Inr ?L"
    by (simp add: loader_eval)
  have lc: "load_and_check ?img ?img ?lab ?lab = Inr (?kd, [2, 3, 4], [2, 3, 4])"
    by (simp add: loader_eval)
  have out: "\<not> ((0::int) \<le> 0 \<and> 3 \<le> int (length (h5_keys ?img)))"
    by (simp add: h5_keys_def)
  note t1 = init_keys_shuffled_slice [where rs = rotate and mi = ?img and fi = ?img
      and ml = ?lab and fl = ?lab and seed = 1 and sh = True and a = 0 and b = 1 and L = ?L]
  note t2 = init_keys_shuffled_slice [where rs = rotate and mi = ?img and fi = ?img
      and ml = ?lab and fl = ?lab and seed = 1 and sh = True and a = 0 and b = 3
      and c = "(?kd, [2, 3, 4], [2, 3, 4])"]
  from t1 ok have "keys ?L = py_slice (rotate 1 (sort (h5_keys ?img))) 0 1"
    and "(0::int) \<le> 0 \<and> 1 \<le> int (length (h5_keys ?img))" by blast+
  moreover from t2 lc out
  have "H5DataLoader_init rotate ?img ?img ?lab ?lab (1::nat) True 0 3 = Inl AssertionError"
    by blast
  ultimately show ?thesis by simp
qed

text \<open>
  Claim C3 as stated fails in its last sentence: with \<open>index_end\<close> beyond the number of
  cases and a moving case that the fixed files do not have, the comparison of the two
  dictionaries comes first and raises \<open>KeyError\<close>.
\<close>

theorem init_index_error_counterexample:
  "H5DataLoader_init rotate [(''case0'', \<lparr>shape = [2, 3, 4], content = ()\<rparr>)] [(''case1'', \<lparr>shape = [2, 3, 4], content = ()\<rparr>)]
     [(''case0_bin0'', \<lparr>shape = [2, 3, 4], content = ()\<rparr>)] [(''case1_bin0'', \<lparr>shape = [2, 3, 4], content = ()\<rparr>)] (1::nat) True 0 5 = Inl KeyError
   \<and> \<not> (5 \<le> int (length (h5_keys [(''case0'', \<lparr>shape = [2, 3, 4], content = ()\<rparr>)])))"
  by (simp add: loader_eval)

subsection \<open>The generator\<close>

lemma dict_append_vals:
  "vals_in d S \<Longrightarrow> v \<in> S \<Longrightarrow> vals_in (dict_append d k v) S"
  by (induction d k v rule: dict_append.induct) (auto simp: vals_in_def)

lemma build_key_dict_vals:
  "build_key_dict iks lks kd = Inr kd' \<Longrightarrow> vals_in kd S \<Longrightarrow> set lks \<subseteq> S \<Longrightarrow> vals_in kd' S"
proof (induction lks arbitrary: kd)
  case Nil
  then show ?case by simp
next
  case (Cons lk lks)
  show ?case
  proof (cases "split_head ''_bin'' lk \<notin> set SKIPPED_KEYS")
    case False
    with Cons.prems(1) have "build_key_dict iks lks kd = Inr kd'" by (simp add: Let_def)
    with Cons.IH [of kd] Cons.prems show ?thesis by simp
  next
    case True
    with Cons.prems(1)
    have "build_key_dict iks lks (dict_append kd (split_head ''_bin'' lk) lk) = Inr kd'"
      by (simp add: Let_def split: if_splits)
    moreover have "vals_in (dict_append kd (split_head ''_bin'' lk) lk) S"
      using Cons.prems by (intro dict_append_vals) simp_all
    ultimately show ?thesis using Cons.IH Cons.prems(3) by simp
  qed
qed

lemma get_image_label_key_dict_vals:
  assumes "get_image_label_key_dict img lab = Inr kd"
  shows "vals_in kd (set (h5_keys lab))"
proof -
  from assms have "build_key_dict (get_sorted_keys img) (get_sorted_keys lab) [] = Inr kd"
    by (auto simp: get_image_label_key_dict_def Let_def split: sum.splits if_splits)
  then show ?thesis
    by (rule build_key_dict_vals) (simp_all add: vals_in_def get_sorted_keys_def)
qed

lemma dict_get_mem: "dict_get kd k = Inr vs \<Longrightarrow> (k, vs) \<in> set kd"
  by (auto simp: dict_get_def split: option.splits dest: map_of_SomeD)

lemma dict_get_key: "dict_get kd k = Inr vs \<Longrightarrow> k \<in> set (map fst kd)"
  by (force dest: dict_get_mem)

lemma check_key_dicts_ok:
  "check_key_dicts m f ks = Inr u \<Longrightarrow> k \<in> set ks \<Longrightarrow>
   \<exists>vs. dict_get m k = Inr vs \<and> dict_get f k = Inr vs"
  by (induction ks) (auto split: sum.splits if_splits)

lemma h5_read_key: "k \<in> set (h5_keys hf) \<Longrightarrow> \<exists>c. h5_read hf k = Inr c"
proof -
  assume "k \<in> set (h5_keys hf)"
  then have "k \<in> fst ` set hf" by (simp add: h5_keys_def)
  then have "map_of hf k \<noteq> None" by (simp add: map_of_eq_None_iff)
  then show ?thesis by (auto simp: h5_read_def h5_get_def)
qed

lemma set_py_slice: "set (py_slice xs a b) \<subseteq> set xs"
proof -
  have "set (take n (drop m xs)) \<subseteq> set xs" for n m
    using set_take_subset [of n "drop m xs"] set_drop_subset [of m xs] by blast
  then show ?thesis by (simp add: py_slice_def Let_def)
qed

lemma init_case_ok:
  assumes i: "H5DataLoader_init rs mi fi ml fl seed sh a b = Inr L"
    and perm: "\<forall>xs. mset (rs seed xs) = mset xs"
    and k: "k \<in> set (keys L)"
  shows "case_ok L k"
proof -
  note lc = init_load_and_check(1) [OF i]
  note md = load_and_check_dicts(1) [OF lc]
  from load_and_check_dicts(2) [OF lc] obtain fkd
    where fd: "get_image_label_key_dict fi fl = Inr fkd"
      and ck: "check_key_dicts (key_dict L) fkd (map fst (key_dict L)) = Inr ()"
    by blast
  have rs: "set (rs seed xs) = set xs" for xs
    using perm mset_eq_setD by blast
  let ?ks = "sort (map fst (key_dict L))"
  have "set (keys L) \<subseteq> set ?ks"
  proof (cases sh)
    case True
    then have "keys L = py_slice (rs seed ?ks) a b"
      using init_load_and_check(4) [OF i] by simp
    then show ?thesis using set_py_slice [of "rs seed ?ks" a b] rs [of ?ks] by simp
  next
    case False
    then have "keys L = py_slice ?ks a b"
      using init_load_and_check(4) [OF i] by simp
    then show ?thesis using set_py_slice [of ?ks a b] by simp
  qed
  then have "set (keys L) \<subseteq> set (map fst (key_dict L))" by simp
  with k have kk: "k \<in> set (map fst (key_dict L))" by blast
  from check_key_dicts_ok [OF ck kk] obtain lks
    where g1: "dict_get (key_dict L) k = Inr lks" and g2: "dict_get fkd k = Inr lks"
    by blast
  from get_image_label_key_dict_vals [OF md] dict_get_mem [OF g1]
  have v1: "lks \<noteq> []" "set lks \<subseteq> set (h5_keys ml)"
    by (auto simp: vals_in_def)
  from get_image_label_key_dict_vals [OF fd] dict_get_mem [OF g2]
  have v2: "set lks \<subseteq> set (h5_keys fl)"
    by (auto simp: vals_in_def)
  have "k \<in> set (h5_keys mi)"
    using kk get_image_label_key_dict_keys(1) [OF md] by simp
  moreover have "k \<in> set (h5_keys fi)"
    using dict_get_key [OF g2] get_image_label_key_dict_keys(1) [OF fd] by simp
  ultimately show ?thesis
    unfolding case_ok_def
    using g1 v1 v2 h5_read_key init_load_and_check(5-8) [OF i]
    by (metis subsetD)
qed


lemma generator_loop_ok:
  assumes rr: "\<forall>g n. 0 < n \<longrightarrow> fst (randrange g n) < n"
  shows "(\<forall>k \<in> set ks. case_ok L k) \<Longrightarrow>
    \<exists>ys. generator_loop randrange L (enumerate n ks) g = (ys, None) \<and>
      length ys = length ks \<and>
      map label_index_of ys = label_draws randrange (map (num_labels_of L) ks) g \<and>
      (\<forall>i < length ks. drawn_sample L (n + i) (ks ! i) (label_index_of (ys ! i)) (ys ! i))"
proof (induction ks arbitrary: n g)
  case Nil
  then show ?case by simp
next
  case (Cons k ks)
  from Cons.prems have "case_ok L k" by simp
  then obtain lks a b
    where lks: "dict_get (key_dict L) k = Inr lks" "lks \<noteq> []"
      and a: "h5_read (moving_image_filename L) k = Inr a"
      and b: "h5_read (fixed_image_filename L) k = Inr b"
      and labs: "\<forall>lk \<in> set lks. (\<exists>c. h5_read (moving_label_filename L) lk = Inr c) \<and>
                        (\<exists>d. h5_read (fixed_label_filename L) lk = Inr d)"
    unfolding case_ok_def by blast
  obtain li g' where draw: "randrange g (length lks) = (li, g')"
    by (cases "randrange g (length lks)")
  have li: "li < length lks"
    using rr lks(2) draw by (metis fst_conv length_greater_0_conv)
  then have "sort lks ! li \<in> set lks"
    by (metis length_sort nth_mem set_sort)
  with labs obtain c d
    where c: "h5_read (moving_label_filename L) (sort lks ! li) = Inr c"
      and d: "h5_read (fixed_label_filename L) (sort lks ! li) = Inr d"
    by blast
  from Cons.prems have "\<forall>k \<in> set ks. case_ok L k" by simp
  from Cons.IH [OF this, of "Suc n" g'] obtain ys
    where ys: "generator_loop randrange L (enumerate (Suc n) ks) g' = (ys, None)"
      "length ys = length ks"
      "map label_index_of ys = label_draws randrange (map (num_labels_of L) ks) g'"
      "\<forall>i < length ks. drawn_sample L (Suc n + i) (ks ! i) (label_index_of (ys ! i)) (ys ! i)"
    by blast
  let ?y = "((a, b, c), d, [n, li])"
  have run: "generator_loop randrange L (enumerate n (k # ks)) g = (?y # ys, None)"
  proof -
    have "sort lks \<noteq> []" using lks(2) by (metis length_0_conv length_sort)
    then show ?thesis
      using lks draw li a b c d ys(1) by (simp add: Let_def)
  qed
  have idx: "label_index_of ?y = li" by (simp add: label_index_of_def)
  have nl: "num_labels_of L k = length lks" using lks(1) by (simp add: num_labels_of_def)
  have draws: "map label_index_of (?y # ys) =
      label_draws randrange (map (num_labels_of L) (k # ks)) g"
    using ys(3) idx nl draw by simp
  have head: "drawn_sample L n k li ?y"
    unfolding drawn_sample_def using lks(1) li a b c d by blast
  have each: "drawn_sample L (n + i) ((k # ks) ! i) (label_index_of ((?y # ys) ! i)) ((?y # ys) ! i)"
    if "i < length (k # ks)" for i
  proof (cases i)
    case 0
    with head idx show ?thesis by simp
  next
    case (Suc j)
    with that ys(4) show ?thesis by simp
  qed
  from run ys(2) draws each show ?case by auto
qed

text \<open>
  Claim C9. On a constructed loader, with a shuffle that permutes and a \<open>randrange\<close>
  that draws below its argument, \<open>get_generator\<close> ends without an exception and yields
  one value per key of \<open>self.keys\<close>, in the order of \<open>self.keys\<close>. The label indices are
  the successive draws of \<open>randrange\<close> on the numbers of label keys of the cases, each
  within the range of the sorted label keys of its case; the value at position \<open>i\<close> holds
  the two images read under the key at \<open>i\<close>, the two labels read under the one label
  key drawn, and the indices \<open>[i, label_index]\<close>.
\<close>

theorem get_generator_yields:
  assumes "H5DataLoader_init rs mi fi ml fl seed sh a b = Inr L"
    and "\<forall>xs. mset (rs seed xs) = mset xs"
    and "\<forall>g n. 0 < n \<longrightarrow> fst (randrange g n) < n"
  shows "\<exists>ys. get_generator randrange L g = (ys, None) \<and>
      length ys = length (keys L) \<and>
      map label_index_of ys = label_draws randrange (map (num_labels_of L) (keys L)) g \<and>
      (\<forall>i < length (keys L).
          label_index_of (ys ! i) < num_labels_of L (keys L ! i) \<and>
          drawn_sample L i (keys L ! i) (label_index_of (ys ! i)) (ys ! i))"
proof -
  have ok: "\<forall>k \<in> set (keys L). case_ok L k"
    using init_case_ok [OF assms(1,2)] by blast
  from generator_loop_ok [OF assms(3) ok, of 0 g] obtain ys
    where ys: "get_generator randrange L g = (ys, None)"
      "length ys = length (keys L)"
      "map label_index_of ys = label_draws randrange (map (num_labels_of L) (keys L)) g"
      "\<forall>i < length (keys L). drawn_sample L i (keys L ! i) (label_index_of (ys ! i)) (ys ! i)"
    unfolding get_generator_def by auto
  have "label_index_of (ys ! i) < num_labels_of L (keys L ! i)" if "i < length (keys L)" for i
    using ys(4) that by (auto simp: drawn_sample_def num_labels_of_def)
  with ys show ?thesis by blast
qed


text \<open>
  The theorem at a loader of two cases built with seed 1, the rotation by the seed
  standing for the shuffle, and a counter modulo \<open>n\<close> standing for \<open>randrange(n)\<close>.
\<close>

theorem get_generator_yields_witness:
  "\<exists>ys. get_generator (\<lambda>g n. (g mod n, Suc g))
       \<lparr>key_dict = [(''case0'', [''case0_bin0'', ''case0_bin1'']), (''case1'', [''case1_bin0''])],
        keys = [''case1'', ''case0''],
        moving_image_filename = [(''case0'', \<lparr>shape = [2, 3, 4], content = 10::nat\<rparr>), (''case1'', \<lparr>shape = [2, 3, 4], content = 11::nat\<rparr>)],
        fixed_image_filename = [(''case0'', \<lparr>shape = [2, 3, 4], content = 20::nat\<rparr>), (''case1'', \<lparr>shape = [2, 3, 4], content = 21::nat\<rparr>)],
        moving_label_filename = [(''case0_bin0'', \<lparr>shape = [2, 3, 4], content = 30::nat\<rparr>), (''case0_bin1'', \<lparr>shape = [2, 3, 4], content = 31::nat\<rparr>), (''case1_bin0'', \<lparr>shape = [2, 3, 4], content = 32::nat\<rparr>)],
        fixed_label_filename = [(''case0_bin0'', \<lparr>shape = [2, 3, 4], content = 40::nat\<rparr>), (''case0_bin1'', \<lparr>shape = [2, 3, 4], content = 41::nat\<rparr>), (''case1_bin0'', \<lparr>shape = [2, 3, 4], content = 42::nat\<rparr>)],
        moving_image_shape = [2, 3, 4], fixed_image_shape = [2, 3, 4]\<rparr> 0 = (ys, None) \<and>
     length ys = 2 \<and> map label_index_of ys = [0, 1]"
proof -
  let ?mi = "[(''case0'', \<lparr>shape = [2, 3, 4], content = 10::nat\<rparr>), (''case1'', \<lparr>shape = [2, 3, 4], content = 11::nat\<rparr>)]"
  let ?fi = "[(''case0'', \<lparr>shape = [2, 3, 4], content = 20::nat\<rparr>), (''case1'', \<lparr>shape = [2, 3, 4], content = 21::nat\<rparr>)]"
  let ?ml = "[(''case0_bin0'', \<lparr>shape = [2, 3, 4], content = 30::nat\<rparr>), (''case0_bin1'', \<lparr>shape = [2, 3, 4], content = 31::nat\<rparr>), (''case1_bin0'', \<lparr>shape = [2, 3, 4], content = 32::nat\<rparr>)]"
  let ?fl = "[(''case0_bin0'', \<lparr>shape = [2, 3, 4], content = 40::nat\<rparr>), (''case0_bin1'', \<lparr>shape = [2, 3, 4], content = 41::nat\<rparr>), (''case1_bin0'', \<lparr>shape = [2, 3, 4], content = 42::nat\<rparr>)]"
  define L where "L = \<lparr>key_dict = [(''case0'', [''case0_bin0'', ''case0_bin1'']), (''case1'', [''case1_bin0''])],
        keys = [''case1'', ''case0''],
        moving_image_filename = ?mi, fixed_image_filename = ?fi,
        moving_label_filename = ?ml, fixed_label_filename = ?fl,
        moving_image_shape = [2, 3, 4], fixed_image_shape = [2, 3, 4]\<rparr>"
  define rr where "rr = (\<lambda>(g::nat) n. (g mod n, Suc g))"
  have ok: "H5DataLoader_init rotate ?mi ?fi ?ml ?fl (1::nat) True 0 2 = Inr L"
    by (simp add: L_def loader_eval)
  have perm: "\<forall>xs::string list. mset (rotate 1 xs) = mset xs"
  proof
    fix xs :: "string list"
    show "mset (rotate 1 xs) = mset xs" by (cases xs) simp_all
  qed
  have rr: "\<forall>g n. 0 < n \<longrightarrow> fst (rr g n) < n" by (simp add: rr_def)
  have draws: "label_draws rr (map (num_labels_of L) (keys L)) 0 = [0, 1]"
    by (simp add: L_def rr_def num_labels_of_def dict_get_def)
  have len: "length (keys L) = 2" by (simp add: L_def)
  from get_generator_yields [OF ok perm rr, of 0] obtain ys
    where y: "get_generator rr L 0 = (ys, None)" "length ys = length (keys L)"
      "map label_index_of ys = label_draws rr (map (num_labels_of L) (keys L)) 0"
    by blast
  have "get_generator rr L 0 = (ys, None) \<and> length ys = 2 \<and> map label_index_of ys = [0, 1]"
    using y draws len by (simp only:)
  then have "\<exists>ys. get_generator rr L 0 = (ys, None) \<and> length ys = 2 \<and>
      map label_index_of ys = [0, 1]" ..
  then show ?thesis unfolding L_def rr_def .
qed

section \<open>Properties of the losses\<close>

subsection \<open>SumSquaredDifference and GlobalNormalizedCrossCorrelation\<close>

lemmas tensor_eval = SumSquaredDifference_call_def squared_difference_def tmap2_def tmap_def
  Flatten_def reduce_mean_def batch_items_def item_size_def batch_size_def mean_def

text \<open>
  Claim C1. The class is named and documented as the sum of squared differences; its
  \<open>call\<close> divides by the number of elements. On the batch of one item \<open>[1, 1]\<close> against
  \<open>[0, 0]\<close> it returns 1, and the sum of the squared differences is 2.
\<close>

theorem ssd_is_mean_at_input:
  "SumSquaredDifference_call (Tensor [1, 2] [1, 1]) (Tensor [1, 2] [0, 0]) = Inr (Tensor [1] [1]) \<and>
   sum_list (map2 (\<lambda>a b. (a - b)\<^sup>2) [1, 1] [0, 0 :: real]) = 2"
  by (simp add: tensor_eval)

lemma take_drop_concat_row:
  "\<forall>r \<in> set rows. length r = n \<Longrightarrow> i < length rows \<Longrightarrow>
   take n (drop (i * n) (concat rows)) = rows ! i"
proof (induction rows arbitrary: i)
  case Nil
  then show ?case by simp
next
  case (Cons r rows)
  show ?case
  proof (cases i)
    case 0
    with Cons.prems show ?thesis by simp
  next
    case (Suc j)
    with Cons.prems have "take n (drop (j * n) (concat rows)) = rows ! j"
      by (intro Cons.IH) simp_all
    with Suc Cons.prems show ?thesis by (simp add: add.commute)
  qed
qed

lemma batch_items_rows:
  assumes "\<forall>r \<in> set rows. length r = item_size sh" "batch_size sh = length rows"
  shows "batch_items (Tensor sh (concat rows)) = rows"
  unfolding batch_items_def
  using assms by (intro nth_equalityI) (simp_all add: take_drop_concat_row)

lemma batch_items_length [simp]: "length (batch_items t) = batch_size (tshape t)"
  by (simp add: batch_items_def)

lemma batch_items_row_length:
  assumes "well_shaped t" "r \<in> set (batch_items t)"
  shows "length r = item_size (tshape t)"
proof -
  from assms(1) obtain b rest where sh: "tshape t = b # rest"
    by (cases "tshape t") (auto simp: well_shaped_def)
  with assms(1) have len: "length (tdata t) = b * item_size (tshape t)"
    by (simp add: well_shaped_def item_size_def)
  from assms(2) obtain i where i: "i < b"
    and r: "r = take (item_size (tshape t)) (drop (i * item_size (tshape t)) (tdata t))"
    by (auto simp: batch_items_def sh batch_size_def)
  have "item_size (tshape t) \<le> b * item_size (tshape t) - i * item_size (tshape t)"
  proof -
    have "Suc i \<le> b" using i by simp
    then have "Suc i * item_size (tshape t) \<le> b * item_size (tshape t)"
      by (rule mult_le_mono1)
    then show ?thesis by simp
  qed
  with r len show ?thesis by simp
qed

lemma batch_items_tmap: "batch_items (tmap f x) = map (map f) (batch_items x)"
  by (simp add: batch_items_def tmap_def take_map drop_map)

lemma batch_items_tmap2:
  "batch_items (tmap2 f x y) =
     map (\<lambda>i. map2 f (take (item_size (tshape x)) (drop (i * item_size (tshape x)) (tdata x)))
                      (take (item_size (tshape x)) (drop (i * item_size (tshape x)) (tdata y))))
       [0..<batch_size (tshape x)]"
  by (simp add: batch_items_def tmap2_def take_map drop_map take_zip drop_zip)


lemma batch_items_tmap2_same:
  assumes "tshape x = tshape y"
  shows "batch_items (tmap2 f x y) = map2 (map2 f) (batch_items x) (batch_items y)"
proof -
  have "map2 (map2 f) (map g [0..<b]) (map h [0..<b]) = map (\<lambda>i. map2 f (g i) (h i)) [0..<b]"
    for g h :: "nat \<Rightarrow> real list" and b
    by (simp add: zip_map_map zip_same_conv_map)
  then show ?thesis
    unfolding batch_items_tmap2 using assms by (simp add: batch_items_def)
qed

lemma tshape_simps [simp]:
  "tshape (tmap f x) = tshape x"
  "tshape (tmap2 g x y) = tshape x"
  "tshape (subtract_keepdims x mu) = tshape x"
  "tshape (reduce_mean x) = take 1 (tshape x)"
  by (simp_all add: tmap_def tmap2_def subtract_keepdims_def reduce_mean_def)

lemma tdata_simps [simp]:
  "tdata (tmap f x) = map f (tdata x)"
  "tdata (tmap2 g x y) = map2 g (tdata x) (tdata y)"
  "tdata (reduce_mean x) = map mean (batch_items x)"
  "tdata (reduce_mean_keepdims x) = map mean (batch_items x)"
  by (simp_all add: tmap_def tmap2_def reduce_mean_def reduce_mean_keepdims_def)

lemma batch_items_centered:
  assumes "well_shaped y"
  shows "batch_items (subtract_keepdims y (reduce_mean_keepdims y)) =
           map (\<lambda>item. map (\<lambda>x. x - mean item) item) (batch_items y)"
proof -
  let ?rows = "map (\<lambda>item. map (\<lambda>x. x - mean item) item) (batch_items y)"
  have d: "map2 (\<lambda>item m. map (\<lambda>x. x - m) item) (batch_items y) (map mean (batch_items y)) = ?rows"
    by (simp add: zip_map2 zip_same_conv_map)
  have "\<forall>r \<in> set ?rows. length r = item_size (tshape y)"
    using batch_items_row_length [OF assms] by auto
  moreover have "batch_size (tshape y) = length ?rows" by simp
  ultimately have "batch_items (Tensor (tshape y) (concat ?rows)) = ?rows"
    by (rule batch_items_rows)
  then show ?thesis by (simp add: subtract_keepdims_def d)
qed

lemma reduce_variance_data:
  assumes "well_shaped y"
  shows "tdata (reduce_variance y) = map variance (batch_items y)"
  by (simp add: reduce_variance_def batch_items_tmap batch_items_centered [OF assms]
      variance_def comp_def)

lemma tshape_reduce_variance [simp]: "tshape (reduce_variance y) = take 1 (tshape y)"
  by (simp add: reduce_variance_def)

lemma map2_centered:
  "map2 (*) (map (\<lambda>x. x - a) p) (map (\<lambda>x. x - b) t) = map2 (\<lambda>x y. (x - a) * (y - b)) p t"
  by (auto simp: zip_map_map)

lemma take1_shape: "well_shaped t \<Longrightarrow> take 1 (tshape t) = [batch_size (tshape t)]"
  by (cases "tshape t") (simp_all add: well_shaped_def batch_size_def)

lemma gncc_product_items:
  assumes "well_shaped y_true" "well_shaped y_pred" "tshape y_true = tshape y_pred"
  shows "batch_items (tmap2 (*) (subtract_keepdims y_pred (reduce_mean_keepdims y_pred))
                                (subtract_keepdims y_true (reduce_mean_keepdims y_true))) =
         map2 (map2 (*)) (map (\<lambda>item. map (\<lambda>x. x - mean item) item) (batch_items y_pred))
                         (map (\<lambda>item. map (\<lambda>x. x - mean item) item) (batch_items y_true))"
proof -
  have "tshape (subtract_keepdims y_pred (reduce_mean_keepdims y_pred)) =
        tshape (subtract_keepdims y_true (reduce_mean_keepdims y_true))"
    using assms(3) by simp
  from batch_items_tmap2_same [OF this] show ?thesis
    by (simp only: batch_items_centered [OF assms(1)] batch_items_centered [OF assms(2)])
qed


lemma gncc_call_data:
  assumes "well_shaped y_true" "well_shaped y_pred" "tshape y_true = tshape y_pred"
  shows "GlobalNormalizedCrossCorrelation_call y_true y_pred =
    Inr (Tensor [batch_size (tshape y_true)]
      (map2 (/)
        (map (\<lambda>x. x + EPS)
          (map2 (*)
            (map abs (map mean (map2 (map2 (*))
               (map (\<lambda>item. map (\<lambda>x. x - mean item) item) (batch_items y_pred))
               (map (\<lambda>item. map (\<lambda>x. x - mean item) item) (batch_items y_true)))))
            (map abs (map mean (map2 (map2 (*))
               (map (\<lambda>item. map (\<lambda>x. x - mean item) item) (batch_items y_pred))
               (map (\<lambda>item. map (\<lambda>x. x - mean item) item) (batch_items y_true)))))))
        (map (\<lambda>x. x + EPS)
          (map2 (*) (map variance (batch_items y_pred)) (map variance (batch_items y_true))))))"
proof -
  have sh: "take 1 (tshape y_pred) = [batch_size (tshape y_true)]"
    using take1_shape [OF assms(2)] assms(3) by simp
  show ?thesis
    unfolding GlobalNormalizedCrossCorrelation_call_def Let_def
    apply (rule arg_cong [where f = Inr])
    apply (rule tensor.expand)
    apply (simp only: tshape_simps tdata_simps sh tensor.sel
        gncc_product_items [OF assms] reduce_variance_data [OF assms(1)]
        reduce_variance_data [OF assms(2)])
    done
qed


lemma gncc_formula_entry:
  "(\<bar>mean (map2 (*) (map (\<lambda>x. x - mean p) p) (map (\<lambda>x. x - mean t) t))\<bar> *
    \<bar>mean (map2 (*) (map (\<lambda>x. x - mean p) p) (map (\<lambda>x. x - mean t) t))\<bar> + EPS) /
   (variance p * variance t + EPS) = gncc_formula t p"
  by (simp only: gncc_formula_def EPS_def map2_centered power2_eq_square)

text \<open>
  Claim C8. For tensors \<open>y_true\<close> and \<open>y_pred\<close> of one shape \<open>(batch, ...)\<close> with at least one
  element per batch item, \<open>GlobalNormalizedCrossCorrelation.call\<close> returns a tensor of shape
  \<open>(batch,)\<close> whose entry for a batch item is
  \<open>(|mean((p - mean p) * (t - mean t))|^2 + eps) / (Var p * Var t + eps)\<close>, the means and
  variances over the elements of the item, and \<open>eps\<close> is \<open>1.0e-5\<close>.
\<close>

theorem gncc_call_formula:
  assumes "well_shaped y_true" "well_shaped y_pred" "tshape y_true = tshape y_pred"
    and "0 < item_size (tshape y_true)"
  shows "GlobalNormalizedCrossCorrelation_call y_true y_pred =
           Inr (Tensor [batch_size (tshape y_true)]
                  (map2 gncc_formula (batch_items y_true) (batch_items y_pred))) \<and>
         EPS = 1 / 100000"
proof -
  let ?It = "batch_items y_true" and ?Ip = "batch_items y_pred"
  let ?cen = "\<lambda>item. map (\<lambda>x. x - mean item) item"
  let ?num = "map abs (map mean (map2 (map2 (*)) (map ?cen ?Ip) (map ?cen ?It)))"
  let ?out = "map2 (/) (map (\<lambda>x. x + EPS) (map2 (*) ?num ?num))
      (map (\<lambda>x. x + EPS) (map2 (*) (map variance ?Ip) (map variance ?It)))"
  have len: "length ?Ip = length ?It"
    using assms(3) by simp
  have "?out = map2 gncc_formula ?It ?Ip"
  proof (rule nth_equalityI)
    show "length ?out = length (map2 gncc_formula ?It ?Ip)" using len by simp
  next
    fix i assume "i < length ?out"
    then have i: "i < length ?It" "i < length ?Ip" using len by simp_all
    have "?out ! i =
      (\<bar>mean (map2 (*) (?cen (?Ip ! i)) (?cen (?It ! i)))\<bar> *
       \<bar>mean (map2 (*) (?cen (?Ip ! i)) (?cen (?It ! i)))\<bar> + EPS) /
      (variance (?Ip ! i) * variance (?It ! i) + EPS)"
      using i by simp
    also have "\<dots> = gncc_formula (?It ! i) (?Ip ! i)"
      by (rule gncc_formula_entry)
    also have "\<dots> = map2 gncc_formula ?It ?Ip ! i"
      using i by simp
    finally show "?out ! i = map2 gncc_formula ?It ?Ip ! i" .
  qed
  with gncc_call_data [OF assms(1-3)] show ?thesis by (simp only: EPS_def simp_thms)
qed


text \<open>
  The theorem at one batch item, \<open>[1, 3]\<close> against \<open>[0, 4]\<close>: the covariance is 2 and the
  variances are 1 and 4, so the value is \<open>(4 + eps) / (4 + eps)\<close>.
\<close>

theorem gncc_call_formula_witness:
  "GlobalNormalizedCrossCorrelation_call (Tensor [1, 2] [1, 3]) (Tensor [1, 2] [0, 4]) =
     Inr (Tensor [1] [1])"
proof -
  have ws: "well_shaped (Tensor [1, 2] [1, 3])" "well_shaped (Tensor [1, 2] [0, 4])"
    by (simp_all add: well_shaped_def)
  have sh: "tshape (Tensor [1, 2] [1, 3]) = tshape (Tensor [1, 2] [0, 4])" by simp
  have pos: "0 < item_size (tshape (Tensor [1, 2] [1, 3]))" by (simp add: item_size_def)
  have items: "batch_items (Tensor [1, 2] [1, 3]) = [[1, 3]]"
    "batch_items (Tensor [1, 2] [0, 4]) = [[0, 4]]"
    by (simp_all add: batch_items_def item_size_def batch_size_def)
  have val: "gncc_formula [1, 3] [0, 4] = 1"
    by (simp add: gncc_formula_def variance_def mean_def)
  have "GlobalNormalizedCrossCorrelation_call (Tensor [1, 2] [1, 3]) (Tensor [1, 2] [0, 4]) =
      Inr (Tensor [batch_size (tshape (Tensor [1, 2] [1, 3]))]
        (map2 gncc_formula (batch_items (Tensor [1, 2] [1, 3]))
           (batch_items (Tensor [1, 2] [0, 4]))))"
    using gncc_call_formula [OF ws sh pos] by (rule conjunct1)
  then show ?thesis
    unfolding items by (simp add: val batch_size_def)
qed


subsection \<open>GlobalMutualInformation, LocalNormalizedCrossCorrelation and the losses\<close>


lemma tshape_clip [simp]: "tshape (clip_by_value t lo hi) = tshape t"
  by (simp add: clip_by_value_def)



















text \<open>
  Claim C10. Every construction of \<open>LocalNormalizedCrossCorrelation\<close> raises: \<open>ValueError\<close>
  when \<open>kernel_type\<close> is not one of the three kernel names, and otherwise
  \<open>AttributeError\<close>, at the first reading of \<open>self.kernel_size\<close>, which no assignment
  precedes.
\<close>

theorem lncc_init_always_raises:
  "LocalNormalizedCrossCorrelation_init kernel_size kernel_type reduction name =
     Inl (if kernel_type \<in> {''rectangular'', ''triangular'', ''gaussian''}
          then AttributeError else ValueError)"
  by (auto simp: LocalNormalizedCrossCorrelation_init_def Let_def kernel_fn_dict_def
      getattr_def Loss_init_def)

text \<open>
  Claim C6. The claim has the class constructed for every kernel size and each of the
  three kernel types; the constructor with its default arguments raises
  \<open>AttributeError\<close>.
\<close>

theorem lncc_init_default_raises:
  "LocalNormalizedCrossCorrelation_init 9 ''rectangular'' Reduction_SUM
     ''LocalNormalizedCrossCorrelation'' =
     Inl AttributeError"
  by (simp add: LocalNormalizedCrossCorrelation_init_def Let_def kernel_fn_dict_def
      getattr_def Loss_init_def)

text \<open>
  Claim C5. Each registered loss is the negation of its metric: on every input its
  \<open>call\<close> returns the tensor of the metric with every entry negated, and raises what the
  metric raises.
\<close>

theorem losses_negate_metrics:
  "GlobalMutualInformationLoss_call num_bins sigma_ratio y_true y_pred =
     map_sum id tf_negative (GlobalMutualInformation_call num_bins sigma_ratio y_true y_pred) \<and>
   LocalNormalizedCrossCorrelationLoss_call self y_true y_pred =
     map_sum id tf_negative (LocalNormalizedCrossCorrelation_call self y_true y_pred) \<and>
   GlobalNormalizedCrossCorrelationLoss_call y_true y_pred =
     map_sum id tf_negative (GlobalNormalizedCrossCorrelation_call y_true y_pred) \<and>
   tf_negative m = Tensor (tshape m) (map uminus (tdata m))"
  by (simp add: GlobalMutualInformationLoss_call_def LocalNormalizedCrossCorrelationLoss_call_def
      GlobalNormalizedCrossCorrelationLoss_call_def NegativeLossMixin_call_def
      tf_negative_def tmap_def split: sum.splits)

end
